theory Spec2Isabelle
  imports Main
begin

section \<open>Errors, requests and responses\<close>

text \<open>
  The development embeds the Git Smart HTTP router \<^verbatim>\<open>createGitRouter\<close> (ref advertisement,
  \<^verbatim>\<open>git-upload-pack\<close>, \<^verbatim>\<open>git-receive-pack\<close>) and \<^verbatim>\<open>formatInfoRefs\<close>.
  Buffers and strings are byte lists (\<^typ>\<open>string\<close>); protocol text is ASCII, so a
  JavaScript string and the buffer it was decoded from have the same elements.
  An exception that leaves a handler is the value \<open>Inl e\<close> of its outcome; a
  \<^verbatim>\<open>Response\<close> is \<open>Inr r\<close>.
\<close>

datatype error =
    NotFoundError
  | AccessDeniedError
  | MalformedRequestError
  | CorruptPackError
  | NonFastForwardOrRaceError
  | IntegrityError

record response =
  status :: nat
  headers :: "(string \<times> string) list"
  body :: string

text \<open>What a handler reads from the Hono context: the two route parameters, the
  \<^verbatim>\<open>service\<close> query parameter, the \<^verbatim>\<open>x-jeju-address\<close> header and the raw body.\<close>

record request =
  param_owner :: string
  param_name :: string
  query_service :: "string option"
  header_x_jeju_address :: "string option"
  arrayBuffer :: string

text \<open>\<^verbatim>\<open>c.text(t, code)\<close>: a plain-text reply with the given status. The headers the
  framework adds on its own are not part of the model.\<close>

definition c_text :: "string \<Rightarrow> nat \<Rightarrow> response" where
  "c_text t code = \<lparr>status = code, headers = [], body = t\<rparr>"

text \<open>\<^verbatim>\<open>new Response(b, {headers})\<close>: status 200 with the headers of the source.\<close>

definition new_Response :: "string \<Rightarrow> (string \<times> string) list \<Rightarrow> response" where
  "new_Response b hs = \<lparr>status = 200, headers = hs, body = b\<rparr>"

section \<open>JavaScript string and buffer primitives used by the router\<close>

definition NUL :: char where
  "NUL = CHR 0x00"

definition LF :: char where
  "LF = CHR 0x0A"

definition CR :: char where
  "CR = CHR 0x0D"

definition startsWith :: "string \<Rightarrow> string \<Rightarrow> bool" where
  "startsWith s p = (take (length p) s = p)"

text \<open>\<^verbatim>\<open>s.split(sep)\<close> for a one-character separator: never empty, \<^verbatim>\<open>''.split(' ')\<close> is
  \<^verbatim>\<open>['']\<close>.\<close>

fun split_char :: "char \<Rightarrow> string \<Rightarrow> string list" where
  "split_char sep [] = [[]]"
| "split_char sep (c # cs) =
     (if c = sep then [] # split_char sep cs
      else (case split_char sep cs of
              [] \<Rightarrow> [[c]]
            | w # ws \<Rightarrow> (c # w) # ws))"

text \<open>\<^verbatim>\<open>xs[i]\<close> on an array: \<^verbatim>\<open>undefined\<close> (here \<open>None\<close>) out of range.\<close>

fun at_index :: "'a list \<Rightarrow> nat \<Rightarrow> 'a option" where
  "at_index [] i = None"
| "at_index (x # xs) 0 = Some x"
| "at_index (x # xs) (Suc i) = at_index xs i"

text \<open>\<^verbatim>\<open>s.replace(pat, rep)\<close> for a string pattern: the first occurrence is replaced.\<close>

fun replaceFirst :: "string \<Rightarrow> string \<Rightarrow> string \<Rightarrow> string" where
  "replaceFirst pat rep [] = (if pat = [] then rep else [])"
| "replaceFirst pat rep (c # cs) =
     (if take (length pat) (c # cs) = pat then rep @ drop (length pat) (c # cs)
      else c # replaceFirst pat rep cs)"

text \<open>\<^verbatim>\<open>xs.join(sep)\<close>.\<close>

fun join :: "string \<Rightarrow> string list \<Rightarrow> string" where
  "join sep [] = []"
| "join sep [x] = x"
| "join sep (x # y # ys) = x @ sep @ join sep (y # ys)"

text \<open>\<^verbatim>\<open>buf.indexOf(pat)\<close>: the index of the first occurrence of \<open>pat\<close>, or \<open>-1\<close>.\<close>

fun indexOfFrom :: "string \<Rightarrow> string \<Rightarrow> nat \<Rightarrow> int" where
  "indexOfFrom pat [] k = (if pat = [] then int k else - 1)"
| "indexOfFrom pat (x # xs) k =
     (if take (length pat) (x # xs) = pat then int k else indexOfFrom pat xs (Suc k))"

definition indexOf :: "string \<Rightarrow> string \<Rightarrow> int" where
  "indexOf buf pat = indexOfFrom pat buf 0"

text \<open>\<^verbatim>\<open>buf.subarray(start, end)\<close>: a negative index counts from the end, both indices
  are clamped to the buffer, and an end before the start gives the empty buffer.\<close>

definition subarray :: "string \<Rightarrow> int \<Rightarrow> int \<Rightarrow> string" where
  "subarray buf start end =
     (let len = int (length buf);
          from = (if start < 0 then max (len + start) 0 else min start len);
          to = (if end < 0 then max (len + end) 0 else min end len)
      in take (nat (to - from)) (drop (nat from) buf))"

text \<open>\<^verbatim>\<open>buf.subarray(start)\<close>: the end defaults to the length.\<close>

definition subarrayFrom :: "string \<Rightarrow> int \<Rightarrow> string" where
  "subarrayFrom buf start = subarray buf start (int (length buf))"

section \<open>Pkt-line codec\<close>

text \<open>
  Modelled from the spec: \<^verbatim>\<open>createPktLine\<close>, \<^verbatim>\<open>createFlushPkt\<close> and \<^verbatim>\<open>parsePktLines\<close>
  live in the pack module, which is not among the sources; they follow the codec contract.
  A pkt-line is a four-digit lowercase hexadecimal length, which counts the four digits
  themselves, followed by the payload; \<^verbatim>\<open>0000\<close> is the flush packet. The encoder writes
  the length in hexadecimal, padded with zeros to at least four digits. The decoder reads
  pkt-lines until the buffer is exhausted or a flush packet is seen; a length field that
  is not four lowercase hex digits, lies outside \<^verbatim>\<open>0004\<close>..\<^verbatim>\<open>fff0\<close>, or reaches past the
  end of the buffer is a framing error.
\<close>

definition hexDigit :: "nat \<Rightarrow> char" where
  "hexDigit d = ''0123456789abcdef'' ! d"

fun toString16 :: "nat \<Rightarrow> string" where
  "toString16 n =
     (if n < 16 then [hexDigit n] else toString16 (n div 16) @ [hexDigit (n mod 16)])"

declare toString16.simps [simp del]

definition padStart4 :: "string \<Rightarrow> string" where
  "padStart4 s = replicate (4 - length s) CHR ''0'' @ s"

definition createPktLine :: "string \<Rightarrow> string" where
  "createPktLine s = padStart4 (toString16 (length s + 4)) @ s"

definition createFlushPkt :: string where
  "createFlushPkt = ''0000''"

definition hexVal :: "char \<Rightarrow> nat option" where
  "hexVal c =
     (let n = (of_char c :: nat) in
      if 48 \<le> n \<and> n \<le> 57 then Some (n - 48)
      else if 97 \<le> n \<and> n \<le> 102 then Some (n - 87)
      else None)"

fun hexFrom :: "nat \<Rightarrow> string \<Rightarrow> nat option" where
  "hexFrom a [] = Some a"
| "hexFrom a (c # cs) =
     (case hexVal c of None \<Rightarrow> None | Some v \<Rightarrow> hexFrom (16 * a + v) cs)"

definition pktLength :: "string \<Rightarrow> nat option" where
  "pktLength buf = (if length buf < 4 then None else hexFrom 0 (take 4 buf))"

function parsePktLines :: "string \<Rightarrow> error + string list" where
  "parsePktLines buf =
     (if buf = [] then Inr []
      else case pktLength buf of
        None \<Rightarrow> Inl MalformedRequestError
      | Some n \<Rightarrow>
          if n = 0 then Inr []
          else if n < 4 \<or> 65520 < n then Inl MalformedRequestError
          else if length buf < n then Inl MalformedRequestError
          else (case parsePktLines (drop n buf) of
                  Inl e \<Rightarrow> Inl e
                | Inr ls \<Rightarrow> Inr (take (n - 4) (drop 4 buf) # ls)))"
  by pat_completeness auto
termination
  by (relation "measure length") auto

declare parsePktLines.simps [simp del]

section \<open>Repository data and the collaborators of the router\<close>

text \<open>The fields of a repository the handlers read: visibility \<open>0\<close> is public, \<open>1\<close>
  private.\<close>

record repository =
  repoId :: string
  visibility :: nat

record GitRef =
  ref_name :: string
  ref_oid :: string

record GitCommit =
  commit_oid :: string
  commit_tree :: string
  commit_parents :: "string list"
  commit_message :: string

text \<open>
  The repository manager, the object store and the packfile codec are outside the
  router and are parameters of the model, over a state \<open>'s\<close> (registry, refs and object
  store together). A reading operation takes the state; \<open>extractPackfile\<close> and
  \<open>pushBranch\<close> return the state they leave behind and the exception they raise, if any
  (\<open>CorruptPackError\<close>, \<open>NonFastForwardOrRaceError\<close>). \<open>createPackfile\<close> may fail;
  \<open>getReachableObjects\<close> returns the oids in iteration order. The other reading
  operations are taken as total. \<open>createPktLines\<close> is the pack module's encoder of a list
  of lines.
\<close>

record 's repoManager =
  getRepositoryByName :: "'s \<Rightarrow> string \<Rightarrow> string \<Rightarrow> repository option"
  hasReadAccess :: "'s \<Rightarrow> string \<Rightarrow> string \<Rightarrow> bool"
  hasWriteAccess :: "'s \<Rightarrow> string \<Rightarrow> string \<Rightarrow> bool"
  getRefs :: "'s \<Rightarrow> string \<Rightarrow> GitRef list"
  getReachableObjects :: "'s \<Rightarrow> string \<Rightarrow> string \<Rightarrow> string list"
  createPackfile :: "'s \<Rightarrow> string \<Rightarrow> string list \<Rightarrow> error + string"
  extractPackfile :: "'s \<Rightarrow> string \<Rightarrow> string \<Rightarrow> 's \<times> error option"
  getCommit :: "'s \<Rightarrow> string \<Rightarrow> string \<Rightarrow> GitCommit option"
  pushBranch ::
    "'s \<Rightarrow> string \<Rightarrow> string \<Rightarrow> string \<Rightarrow> string option \<Rightarrow> nat \<Rightarrow> string \<Rightarrow> 's \<times> error option"
  createPktLines :: "string list \<Rightarrow> string"

text \<open>The calls a handler makes, in order, with their arguments: the trace of a request.
  \<open>TrackGitContribution user repoId name branch commitCount message\<close> is the
  fire-and-forget call to the leaderboard.\<close>

datatype event =
    GetRepositoryByName string string
  | HasReadAccess string string
  | HasWriteAccess string string
  | GetRefs string
  | GetReachableObjects string string
  | CreatePackfile string "string list"
  | ExtractPackfile string string
  | PushBranch string string string "string option" nat string
  | TrackGitContribution string string string string nat string

subsection \<open>walkCommits\<close>

text \<open>
  Modelled from the spec: \<^verbatim>\<open>walkCommits(startOid, limit)\<close> belongs to the object store,
  which is not among the sources. It walks the commit graph from the start oid with an
  explicit work list and a visited set, following all parents breadth first, treats a
  missing commit as a dead end and stops once \<open>limit\<close> commits are collected.
\<close>

function walkLoop ::
  "(string \<Rightarrow> GitCommit option) \<Rightarrow> nat \<Rightarrow> string list \<Rightarrow> string list \<Rightarrow> GitCommit list
    \<Rightarrow> GitCommit list" where
  "walkLoop get limit queue visited commits =
     (case queue of
        [] \<Rightarrow> commits
      | oid # rest \<Rightarrow>
          if limit \<le> length commits then commits
          else if oid \<in> set visited then walkLoop get limit rest visited commits
          else (case get oid of
                  None \<Rightarrow> walkLoop get limit rest (oid # visited) commits
                | Some c \<Rightarrow>
                    walkLoop get limit (rest @ commit_parents c) (oid # visited) (commits @ [c])))"
  by pat_completeness auto
termination
  by (relation "measures [\<lambda>(get, limit, queue, visited, commits). limit - length commits,
                          \<lambda>(get, limit, queue, visited, commits). length queue]") auto

declare walkLoop.simps [simp del]

definition walkCommits :: "(string \<Rightarrow> GitCommit option) \<Rightarrow> string \<Rightarrow> nat \<Rightarrow> GitCommit list" where
  "walkCommits get startOid limit = walkLoop get limit [startOid] [] []"

section \<open>Ref advertisement\<close>

definition GIT_AGENT :: string where
  "GIT_AGENT = ''jeju-git/1.0.0''"

definition capabilities :: string where
  "capabilities =
     join '' '' [''report-status'', ''delete-refs'', ''side-band-64k'', ''quiet'', ''ofs-delta'',
                 ''agent='' @ GIT_AGENT]"

text \<open>The loop of \<^verbatim>\<open>formatInfoRefs\<close> over the refs, with its index \<open>i\<close>.\<close>

fun refLines :: "nat \<Rightarrow> GitRef list \<Rightarrow> string list" where
  "refLines i [] = []"
| "refLines i (r # rs) =
     createPktLine
       (if i = 0 then ref_oid r @ '' '' @ ref_name r @ [NUL] @ capabilities
        else ref_oid r @ '' '' @ ref_name r)
     # refLines (i + 1) rs"

definition formatInfoRefs :: "string \<Rightarrow> GitRef list \<Rightarrow> string" where
  "formatInfoRefs service refs =
     concat
       ([createPktLine (''# service='' @ service), createFlushPkt]
        @ (if length refs = 0
           then [createPktLine
                   (replicate 40 CHR ''0'' @ '' capabilities^{}'' @ [NUL] @ capabilities)]
           else refLines 0 refs)
        @ [createFlushPkt])"

text \<open>The end of the info/refs handler: the refs are read and the advertisement is sent;
  \<open>t\<close> is the trace so far.\<close>

definition advertise ::
  "'s repoManager \<Rightarrow> 's \<Rightarrow> repository \<Rightarrow> string \<Rightarrow> event list \<Rightarrow> event list \<times> (error + response)" where
  "advertise rm st repo service t =
     (t @ [GetRefs (repoId repo)],
      Inr (new_Response (formatInfoRefs service (getRefs rm st (repoId repo)))
             [(''Content-Type'', ''application/x-'' @ service @ ''-advertisement''),
              (''Cache-Control'', ''no-cache'')]))"

text \<open>The handler of \<^verbatim>\<open>GET /:owner/:name/info/refs\<close>. It returns the trace of its calls
  and its outcome; it changes no state.\<close>

definition info_refs :: "'s repoManager \<Rightarrow> 's \<Rightarrow> request \<Rightarrow> event list \<times> (error + response)" where
  "info_refs rm st req =
     (let owner = param_owner req; name = param_name req in
      case query_service req of
        None \<Rightarrow> ([], Inr (c_text ''Service required'' 400))
      | Some service \<Rightarrow>
          if service = [] \<or> (service \<noteq> ''git-upload-pack'' \<and> service \<noteq> ''git-receive-pack'')
          then ([], Inr (c_text ''Service required'' 400))
          else
            (case getRepositoryByName rm st owner name of
               None \<Rightarrow>
                 ([GetRepositoryByName owner name], Inr (c_text ''Repository not found'' 404))
             | Some repo \<Rightarrow>
                 (let t0 = [GetRepositoryByName owner name];
                      user = header_x_jeju_address req
                  in
                  if service = ''git-receive-pack'' then
                    (case user of
                       None \<Rightarrow> (t0, Inr (c_text ''Authentication required'' 401))
                     | Some u \<Rightarrow>
                         if u = [] then (t0, Inr (c_text ''Authentication required'' 401))
                         else if hasWriteAccess rm st (repoId repo) u
                         then advertise rm st repo service (t0 @ [HasWriteAccess (repoId repo) u])
                         else (t0 @ [HasWriteAccess (repoId repo) u],
                               Inr (c_text ''Write access denied'' 403)))
                  else if visibility repo = 1 then
                    (case user of
                       None \<Rightarrow> (t0, Inr (c_text ''Authentication required'' 401))
                     | Some u \<Rightarrow>
                         if u = [] then (t0, Inr (c_text ''Authentication required'' 401))
                         else if hasReadAccess rm st (repoId repo) u
                         then advertise rm st repo service (t0 @ [HasReadAccess (repoId repo) u])
                         else (t0 @ [HasReadAccess (repoId repo) u],
                               Inr (c_text ''Read access denied'' 403)))
                  else advertise rm st repo service t0)))"

section \<open>Fetch: git-upload-pack\<close>

text \<open>\<^verbatim>\<open>line.split(' ')[1]\<close>. Under the guards \<^verbatim>\<open>line.startsWith('want ')\<close> and
  \<^verbatim>\<open>line.startsWith('have ')\<close> the split has at least two fields, so the \<^verbatim>\<open>undefined\<close> of
  a missing field (here the empty string) never reaches the lists.\<close>

definition secondField :: "string \<Rightarrow> string" where
  "secondField line =
     (case at_index (split_char CHR '' '' line) 1 of None \<Rightarrow> [] | Some f \<Rightarrow> f)"

text \<open>The loop that sorts the request lines into \<open>wants\<close> and \<open>haves\<close>.\<close>

fun collectWantsHaves :: "string list \<Rightarrow> string list \<times> string list \<Rightarrow> string list \<times> string list" where
  "collectWantsHaves [] (wants, haves) = (wants, haves)"
| "collectWantsHaves (line # lines) (wants, haves) =
     (if startsWith line ''want '' then collectWantsHaves lines (wants @ [secondField line], haves)
      else if startsWith line ''have '' then collectWantsHaves lines (wants, haves @ [secondField line])
      else collectWantsHaves lines (wants, haves))"

text \<open>The inner loop over one reachable set, and the outer loop over the wants; both
  push onto \<open>neededOids\<close>.\<close>

fun pushNeeded :: "string list \<Rightarrow> string list \<Rightarrow> string list \<Rightarrow> string list" where
  "pushNeeded haves [] neededOids = neededOids"
| "pushNeeded haves (oid # reachable) neededOids =
     (if oid \<in> set haves then pushNeeded haves reachable neededOids
      else pushNeeded haves reachable (neededOids @ [oid]))"

fun collectNeeded :: "(string \<Rightarrow> string list) \<Rightarrow> string list \<Rightarrow> string list \<Rightarrow> string list \<Rightarrow> string list" where
  "collectNeeded reach haves [] neededOids = neededOids"
| "collectNeeded reach haves (wantOid # wants) neededOids =
     collectNeeded reach haves wants (pushNeeded haves (reach wantOid) neededOids)"

text \<open>The part of the upload-pack handler after the access check, from the reading of the
  body to the response; \<open>t\<close> is the trace so far. The trace records one
  \<open>GetReachableObjects\<close> per want and the oids handed to \<open>createPackfile\<close>.\<close>

definition upload_pack_serve ::
  "'s repoManager \<Rightarrow> 's \<Rightarrow> repository \<Rightarrow> request \<Rightarrow> event list \<Rightarrow> event list \<times> (error + response)" where
  "upload_pack_serve rm st repo req t =
     (case parsePktLines (arrayBuffer req) of
        Inl e \<Rightarrow> (t, Inl e)
      | Inr lines \<Rightarrow>
          (case collectWantsHaves lines ([], []) of
             (wants, haves) \<Rightarrow>
               if length wants = 0
               then (t, Inr (new_Response (createPktLine ''NAK'')
                       [(''Content-Type'', ''application/x-git-upload-pack-result'')]))
               else
                 (let neededOids =
                        collectNeeded (getReachableObjects rm st (repoId repo)) haves wants [];
                      t1 = t @ map (GetReachableObjects (repoId repo)) wants
                             @ [CreatePackfile (repoId repo) neededOids]
                  in case createPackfile rm st (repoId repo) neededOids of
                       Inl e \<Rightarrow> (t1, Inl e)
                     | Inr packfile \<Rightarrow>
                         (t1, Inr (new_Response (createPktLine ''NAK'' @ packfile)
                            [(''Content-Type'', ''application/x-git-upload-pack-result''),
                             (''Cache-Control'', ''no-cache'')])))))"

text \<open>The handler of \<^verbatim>\<open>POST /:owner/:name/git-upload-pack\<close>.\<close>

definition git_upload_pack :: "'s repoManager \<Rightarrow> 's \<Rightarrow> request \<Rightarrow> event list \<times> (error + response)" where
  "git_upload_pack rm st req =
     (let owner = param_owner req; name = param_name req in
      case getRepositoryByName rm st owner name of
        None \<Rightarrow> ([GetRepositoryByName owner name], Inr (c_text ''Repository not found'' 404))
      | Some repo \<Rightarrow>
          (let t0 = [GetRepositoryByName owner name];
               user = header_x_jeju_address req
           in
           if visibility repo = 1 then
             (case user of
                None \<Rightarrow> (t0, Inr (c_text ''Authentication required'' 401))
              | Some u \<Rightarrow>
                  if u = [] then (t0, Inr (c_text ''Authentication required'' 401))
                  else if hasReadAccess rm st (repoId repo) u
                  then upload_pack_serve rm st repo req (t0 @ [HasReadAccess (repoId repo) u])
                  else (t0 @ [HasReadAccess (repoId repo) u],
                        Inr (c_text ''Read access denied'' 403)))
           else upload_pack_serve rm st repo req t0))"

section \<open>Push: git-receive-pack\<close>

record update =
  oldOid :: string
  newOid :: string
  refName :: string

record push_result =
  ref :: string
  success :: bool
  error :: "string option"

definition ZERO_OID :: string where
  "ZERO_OID = ''0000000000000000000000000000000000000000''"

definition lowerHex :: "char \<Rightarrow> bool" where
  "lowerHex c = (c \<in> set ''0123456789abcdef'')"

text \<open>
  \<^verbatim>\<open>line.match(/^([0-9a-f]{40}) ([0-9a-f]{40}) (.+)$/)\<close>: forty hex digits, a space, forty
  hex digits, a space and a non-empty rest up to the end of the string; the dot matches
  no line terminator, so the rest holds neither LF nor CR.
\<close>

definition matchUpdate :: "string \<Rightarrow> (string \<times> string \<times> string) option" where
  "matchUpdate line =
     (let g1 = take 40 line; g2 = take 40 (drop 41 line); g3 = drop 82 line in
      if 82 < length line \<and> list_all lowerHex g1 \<and> line ! 40 = CHR '' ''
         \<and> list_all lowerHex g2 \<and> line ! 81 = CHR '' ''
         \<and> list_all (\<lambda>c. c \<noteq> LF \<and> c \<noteq> CR) g3
      then Some (g1, g2, g3) else None)"

text \<open>\<^verbatim>\<open>s.split(sep)[0]\<close>: the first field of a split, which always exists.\<close>

definition firstField :: "char \<Rightarrow> string \<Rightarrow> string" where
  "firstField sep s = (case split_char sep s of [] \<Rightarrow> [] | f # _ \<Rightarrow> f)"

text \<open>The loop that turns the command lines into ref updates.\<close>

fun parseUpdates :: "string list \<Rightarrow> update list \<Rightarrow> update list" where
  "parseUpdates [] updates = updates"
| "parseUpdates (line # lines) updates =
     (if line = [] \<or> line = ''0000'' then parseUpdates lines updates
      else (case matchUpdate line of
              None \<Rightarrow> parseUpdates lines updates
            | Some (g1, g2, g3) \<Rightarrow>
                parseUpdates lines
                  (updates @ [\<lparr>oldOid = g1, newOid = g2, refName = firstField NUL g3\<rparr>])))"

text \<open>The split of the request body at \<^verbatim>\<open>body.indexOf('PACK')\<close> into the command data and
  the pack data.\<close>

definition splitBody :: "string \<Rightarrow> string \<times> string" where
  "splitBody buf =
     (let packStart = indexOf buf ''PACK'' in
      (subarray buf 0 packStart, subarrayFrom buf packStart))"

text \<open>\<^verbatim>\<open>commits[0]?.message.split('\n')[0] || 'Push'\<close>.\<close>

definition pushMessage :: "GitCommit list \<Rightarrow> string" where
  "pushMessage commits =
     (case commits of
        [] \<Rightarrow> ''Push''
      | c # _ \<Rightarrow> (let m = firstField LF (commit_message c) in if m = [] then ''Push'' else m))"

text \<open>
  The loop over the updates. It returns the calls it made, the state it left and either
  the results or the exception that ended it: the call of \<open>pushBranch\<close> stands in no
  \<^verbatim>\<open>try\<close> block, so its exception leaves the loop and the handler. The results are
  collected in the order of the updates.
\<close>

fun applyUpdates ::
  "'s repoManager \<Rightarrow> string \<Rightarrow> string \<Rightarrow> string \<Rightarrow> update list \<Rightarrow> 's
    \<Rightarrow> event list \<times> 's \<times> (error + push_result list)" where
  "applyUpdates rm user rid name [] st = ([], st, Inr [])"
| "applyUpdates rm user rid name (u # us) st =
     (if \<not> startsWith (refName u) ''refs/heads/'' then
        (case applyUpdates rm user rid name us st of
           (t, st', Inl e) \<Rightarrow> (t, st', Inl e)
         | (t, st', Inr results) \<Rightarrow>
             (t, st', Inr (\<lparr>ref = refName u, success = False,
                             error = Some ''Only branch updates supported''\<rparr> # results)))
      else
        (let branchName = replaceFirst ''refs/heads/'' [] (refName u);
             commits = walkCommits (getCommit rm st rid) (newOid u) 100;
             expected = (if oldOid u = ZERO_OID then None else Some (oldOid u));
             call = PushBranch rid branchName (newOid u) expected (length commits) user
         in case pushBranch rm st rid branchName (newOid u) expected (length commits) user of
              (st1, Some e) \<Rightarrow> ([call], st1, Inl e)
            | (st1, None) \<Rightarrow>
                (let track = TrackGitContribution user rid name branchName (length commits)
                               (pushMessage commits)
                 in case applyUpdates rm user rid name us st1 of
                      (t, st', Inl e) \<Rightarrow> (call # track # t, st', Inl e)
                    | (t, st', Inr results) \<Rightarrow>
                        (call # track # t, st',
                         Inr (\<lparr>ref = refName u, success = True, error = None\<rparr> # results)))))"

text \<open>One line of the report: \<^verbatim>\<open>ok <ref>\<close> or \<^verbatim>\<open>ng <ref> <error>\<close>.\<close>

definition statusLine :: "push_result \<Rightarrow> string" where
  "statusLine r =
     (if success r then ''ok '' @ ref r
      else ''ng '' @ ref r @ '' '' @ (case error r of None \<Rightarrow> ''undefined'' | Some e \<Rightarrow> e))"

text \<open>The part of the receive-pack handler after the access check: the body is split,
  the commands are parsed, the pack is extracted and only then the updates are applied.
  It returns the calls it made, the state it left and its outcome.\<close>

definition receive_pack_serve ::
  "'s repoManager \<Rightarrow> 's \<Rightarrow> repository \<Rightarrow> string \<Rightarrow> string \<Rightarrow> string
    \<Rightarrow> event list \<times> 's \<times> (error + response)" where
  "receive_pack_serve rm st repo name user buf =
     (case splitBody buf of
        (commandData, packData) \<Rightarrow>
          (case parsePktLines commandData of
             Inl e \<Rightarrow> ([], st, Inl e)
           | Inr lines \<Rightarrow>
               (let updates = parseUpdates lines [];
                    t1 = [ExtractPackfile (repoId repo) packData]
                in case extractPackfile rm st (repoId repo) packData of
                     (st1, Some e) \<Rightarrow> (t1, st1, Inl e)
                   | (st1, None) \<Rightarrow>
                       (case applyUpdates rm user (repoId repo) name updates st1 of
                          (t2, st2, Inl e) \<Rightarrow> (t1 @ t2, st2, Inl e)
                        | (t2, st2, Inr results) \<Rightarrow>
                            (t1 @ t2, st2,
                             Inr (new_Response
                                   (createPktLines rm (''unpack ok'' # map statusLine results))
                                   [(''Content-Type'', ''application/x-git-receive-pack-result''),
                                    (''Cache-Control'', ''no-cache'')]))))))"

text \<open>The handler of \<^verbatim>\<open>POST /:owner/:name/git-receive-pack\<close>: trace, final state and
  outcome.\<close>

definition git_receive_pack ::
  "'s repoManager \<Rightarrow> 's \<Rightarrow> request \<Rightarrow> event list \<times> 's \<times> (error + response)" where
  "git_receive_pack rm st req =
     (let owner = param_owner req; name = param_name req in
      case header_x_jeju_address req of
        None \<Rightarrow> ([], st, Inr (c_text ''Authentication required'' 401))
      | Some user \<Rightarrow>
          if user = [] then ([], st, Inr (c_text ''Authentication required'' 401))
          else
            (case getRepositoryByName rm st owner name of
               None \<Rightarrow>
                 ([GetRepositoryByName owner name], st, Inr (c_text ''Repository not found'' 404))
             | Some repo \<Rightarrow>
                 (let t0 = [GetRepositoryByName owner name, HasWriteAccess (repoId repo) user] in
                  if \<not> hasWriteAccess rm st (repoId repo) user
                  then (t0, st, Inr (c_text ''Write access denied'' 403))
                  else
                    (case receive_pack_serve rm st repo name user (arrayBuffer req) of
                       (t, st', out) \<Rightarrow> (t0 @ t, st', out)))))"

section \<open>An in-memory repository manager\<close>

text \<open>
  Modelled from the spec: the repository manager and the object store are not among the
  sources. This instance is used to run the handlers on concrete requests. It knows one
  repository, \<^verbatim>\<open>0xowner/demo\<close>, grants access to a list of members, keeps the branch
  tips and the commits in association lists, updates a tip by compare-and-swap on the
  expected old oid (absent branch: no expected oid), and reports as reachable the commits
  that \<open>walkCommits\<close> finds. Its packfiles are a stand-in for the binary format: the
  magic \<^verbatim>\<open>PACK\<close>, eight more header bytes, and then one record of eighty characters per
  commit, the oid of the commit followed by the oid of its parent (the zero oid for a
  root). Data shorter than the header or without the magic are corrupt; extraction appends
  the commits of the records to the store.
\<close>

record mem =
  mem_branches :: "(string \<times> string) list"
  mem_commits :: "(string \<times> GitCommit) list"

function unpackCommits :: "string \<Rightarrow> (string \<times> GitCommit) list" where
  "unpackCommits data =
     (if length data < 80 then []
      else (take 40 data,
            \<lparr>commit_oid = take 40 data, commit_tree = [],
             commit_parents =
               (if take 40 (drop 40 data) = ZERO_OID then [] else [take 40 (drop 40 data)]),
             commit_message = ''pushed commit''\<rparr>)
           # unpackCommits (drop 80 data))"
  by pat_completeness auto
termination
  by (relation "measure length") auto

declare unpackCommits.simps [simp del]

definition memManager :: "repository \<Rightarrow> string list \<Rightarrow> mem repoManager" where
  "memManager repo members =
     \<lparr>getRepositoryByName =
        (\<lambda>st owner name. if owner = ''0xowner'' \<and> name = ''demo'' then Some repo else None),
      hasReadAccess = (\<lambda>st rid u. u \<in> set members),
      hasWriteAccess = (\<lambda>st rid u. u \<in> set members),
      getRefs =
        (\<lambda>st rid. map (\<lambda>(b, oid). \<lparr>ref_name = ''refs/heads/'' @ b, ref_oid = oid\<rparr>) (mem_branches st)),
      getReachableObjects =
        (\<lambda>st rid oid.
           map commit_oid (walkCommits (map_of (mem_commits st)) oid (length (mem_commits st)))),
      createPackfile = (\<lambda>st rid oids. Inr (''PACK'' @ concat oids)),
      extractPackfile =
        (\<lambda>st rid data.
           if startsWith data ''PACK'' \<and> 12 \<le> length data
           then (st\<lparr>mem_commits := mem_commits st @ unpackCommits (drop 12 data)\<rparr>, None)
           else (st, Some CorruptPackError)),
      getCommit = (\<lambda>st rid oid. map_of (mem_commits st) oid),
      pushBranch =
        (\<lambda>st rid b new expected n u.
           if map_of (mem_branches st) b = expected
           then (st\<lparr>mem_branches := (b, new) # filter (\<lambda>(k, v). k \<noteq> b) (mem_branches st)\<rparr>, None)
           else (st, Some NonFastForwardOrRaceError)),
      createPktLines = (\<lambda>ls. concat (map createPktLine ls) @ createFlushPkt)\<rparr>"

definition publicRepo :: repository where
  "publicRepo = \<lparr>repoId = ''0x01'', visibility = 0\<rparr>"

definition privateRepo :: repository where
  "privateRepo = \<lparr>repoId = ''0x01'', visibility = 1\<rparr>"

text \<open>Two commits, \<open>oidB\<close> on top of \<open>oidA\<close>; \<open>main\<close> points to \<open>oidB\<close> and \<open>dev\<close> to
  \<open>oidA\<close>. \<open>oidC\<close> is a commit the store does not hold.\<close>

definition oidA :: string where
  "oidA = ''1111111111111111111111111111111111111111''"

definition oidB :: string where
  "oidB = ''2222222222222222222222222222222222222222''"

definition oidC :: string where
  "oidC = ''3333333333333333333333333333333333333333''"

definition demoMem :: mem where
  "demoMem =
     \<lparr>mem_branches = [(''main'', oidB), (''dev'', oidA)],
      mem_commits =
        [(oidA, \<lparr>commit_oid = oidA, commit_tree = ''aaaaaaaaaaaaaaaaaaaaaaaaaaaaaaaaaaaaaaaa'',
                  commit_parents = [], commit_message = ''initial commit''\<rparr>),
         (oidB, \<lparr>commit_oid = oidB, commit_tree = ''bbbbbbbbbbbbbbbbbbbbbbbbbbbbbbbbbbbbbbbb'',
                  commit_parents = [oidA], commit_message = ''second commit''\<rparr>)]\<rparr>"

definition demoRequest :: "string option \<Rightarrow> string option \<Rightarrow> string \<Rightarrow> request" where
  "demoRequest service user buf =
     \<lparr>param_owner = ''0xowner'', param_name = ''demo'', query_service = service,
      header_x_jeju_address = user, arrayBuffer = buf\<rparr>"

text \<open>Push bodies. The first creates the branch \<open>feature\<close> at \<open>oidB\<close> and tries to move a
  tag; the second updates \<open>main\<close> with a stale old oid (\<open>main\<close> is at \<open>oidB\<close>, not \<open>oidA\<close>)
  and creates \<open>feature\<close>; the third deletes \<open>dev\<close> and carries no pack; the fourth carries a
  pack cut off after six bytes.\<close>

definition pushCreateAndTag :: string where
  "pushCreateAndTag =
     createPktLine (ZERO_OID @ '' '' @ oidB @ '' refs/heads/feature'' @ [NUL] @ ''report-status'')
     @ createPktLine (oidB @ '' '' @ oidC @ '' refs/tags/v1'')
     @ createFlushPkt @ ''PACK........''"

definition pushStaleAndCreate :: string where
  "pushStaleAndCreate =
     createPktLine (oidA @ '' '' @ oidC @ '' refs/heads/main'' @ [NUL] @ ''report-status'')
     @ createPktLine (ZERO_OID @ '' '' @ oidB @ '' refs/heads/feature'')
     @ createFlushPkt @ ''PACK........''"

text \<open>A push that moves \<open>main\<close> from \<open>oidB\<close> to \<open>oidC\<close> and carries the commit \<open>oidC\<close>,
  whose parent is \<open>oidB\<close>, in its pack.\<close>

definition pushWithCommit :: string where
  "pushWithCommit =
     createPktLine (oidB @ '' '' @ oidC @ '' refs/heads/main'' @ [NUL] @ ''report-status'')
     @ createFlushPkt @ ''PACK........'' @ oidC @ oidB"

definition pushDeleteOnly :: string where
  "pushDeleteOnly =
     createPktLine (oidA @ '' '' @ ZERO_OID @ '' refs/heads/dev'' @ [NUL] @ ''report-status'')
     @ createFlushPkt"

definition pushCorruptPack :: string where
  "pushCorruptPack =
     createPktLine (ZERO_OID @ '' '' @ oidB @ '' refs/heads/feature'' @ [NUL] @ ''report-status'')
     @ createFlushPkt @ ''PACK..''"

text \<open>Two variants of the manager on the private repository, with \<open>0xalice\<close> as its only
  member: one whose \<open>extractPackfile\<close> accepts any data and stores nothing, and one whose
  \<open>hasReadAccess\<close> denies everybody while \<open>hasWriteAccess\<close> still admits the member.\<close>

definition acceptAllManager :: "mem repoManager" where
  "acceptAllManager =
     (memManager privateRepo [''0xalice''])\<lparr>extractPackfile := (\<lambda>st rid data. (st, None))\<rparr>"

definition writeOnlyManager :: "mem repoManager" where
  "writeOnlyManager =
     (memManager privateRepo [''0xalice''])\<lparr>hasReadAccess := (\<lambda>st rid u. False)\<rparr>"

section \<open>Properties of the pkt-line codec\<close>

lemma toString16_small: "n < 16 \<Longrightarrow> toString16 n = [hexDigit n]"
  by (subst toString16.simps) simp

lemma toString16_large:
  "\<not> n < 16 \<Longrightarrow> toString16 n = toString16 (n div 16) @ [hexDigit (n mod 16)]"
  by (subst toString16.simps) simp

lemma hexVal_hexDigit: "d < 16 \<Longrightarrow> hexVal (hexDigit d) = Some d"
proof -
  assume "d < 16"
  then have "d \<in> {0, 1, 2, 3, 4, 5, 6, 7, 8, 9, 10, 11, 12, 13, 14, 15}"
    by simp arith
  then show ?thesis
    by (auto simp: hexVal_def hexDigit_def)
qed

lemma hexFrom_append:
  "hexFrom a (xs @ ys) = (case hexFrom a xs of None \<Rightarrow> None | Some b \<Rightarrow> hexFrom b ys)"
  by (induction xs arbitrary: a) (auto split: option.splits)

lemma hexFrom_toString16:
  "hexFrom a (toString16 n) = Some (a * 16 ^ length (toString16 n) + n)"
proof (induction n arbitrary: a rule: toString16.induct)
  case (1 n)
  show ?case
  proof (cases "n < 16")
    case True
    then show ?thesis by (simp add: toString16_small hexVal_hexDigit)
  next
    case False
    then show ?thesis
      using "1.IH"[OF False]
      by (simp add: toString16_large hexFrom_append hexVal_hexDigit algebra_simps)
  qed
qed

lemma hexFrom_zeros: "hexFrom 0 (replicate k CHR ''0'' @ s) = hexFrom 0 s"
  by (induction k) (auto simp: hexVal_def)

lemma length_toString16: "0 < k \<Longrightarrow> n < 16 ^ k \<Longrightarrow> length (toString16 n) \<le> k"
proof (induction n arbitrary: k rule: toString16.induct)
  case (1 n)
  show ?case
  proof (cases "n < 16")
    case True
    then show ?thesis using "1.prems" by (simp add: toString16_small)
  next
    case False
    with "1.prems" obtain j where k: "k = Suc j" by (cases k) auto
    with False "1.prems" have "0 < j" by (cases j) auto
    moreover have "n div 16 < 16 ^ j" using "1.prems" k
      by (simp add: less_mult_imp_div_less mult.commute)
    ultimately have "length (toString16 (n div 16)) \<le> j" using "1.IH"[OF False] by blast
    then show ?thesis using False k by (simp add: toString16_large)
  qed
qed

lemma length_header: "n < 65536 \<Longrightarrow> length (padStart4 (toString16 n)) = 4"
  using length_toString16[of 4 n] by (simp add: padStart4_def)

lemma hexFrom_header: "hexFrom 0 (padStart4 (toString16 n)) = Some n"
  by (simp add: padStart4_def hexFrom_zeros hexFrom_toString16)

lemma pktLength_createPktLine:
  "length s + 4 < 65536 \<Longrightarrow> pktLength (createPktLine s @ rest) = Some (length s + 4)"
  by (simp add: pktLength_def createPktLine_def length_header hexFrom_header)

lemma parsePktLines_Nil: "parsePktLines [] = Inr []"
  by (subst parsePktLines.simps) simp

lemma parsePktLines_flush: "parsePktLines (createFlushPkt @ rest) = Inr []"
  by (subst parsePktLines.simps) (simp add: createFlushPkt_def pktLength_def hexVal_def)

lemma parsePktLines_createPktLine:
  assumes "length s \<le> 65516"
  shows "parsePktLines (createPktLine s @ rest) =
           (case parsePktLines rest of Inl e \<Rightarrow> Inl e | Inr ls \<Rightarrow> Inr (s # ls))"
proof -
  have len: "length (padStart4 (toString16 (length s + 4))) = 4"
    using assms by (simp add: length_header)
  have cl: "length (createPktLine s) = length s + 4"
    using len by (simp add: createPktLine_def)
  have ne: "createPktLine s \<noteq> []"
    using cl by auto
  have pl: "pktLength (createPktLine s @ rest) = Some (length s + 4)"
    using assms by (simp add: pktLength_createPktLine)
  have dr: "drop (length s + 4) (createPktLine s @ rest) = rest"
    using cl by simp
  have tk: "take (length s) (drop 4 (createPktLine s @ rest)) = s"
    using len by (simp add: createPktLine_def)
  have "parsePktLines (createPktLine s @ rest) =
          (case parsePktLines (drop (length s + 4) (createPktLine s @ rest)) of
             Inl e \<Rightarrow> Inl e
           | Inr ls \<Rightarrow> Inr (take (length s + 4 - 4) (drop 4 (createPktLine s @ rest)) # ls))"
    using assms ne cl by (subst parsePktLines.simps) (simp add: pl)
  then show ?thesis by (simp only: dr tk add_diff_cancel_right')
qed

lemma replicate_numeral: "replicate (numeral k) x = x # replicate (pred_numeral k) x"
  by (simp add: numeral_eq_Suc)

lemmas pkt_eval =
  createPktLine_def padStart4_def toString16_small toString16_large hexDigit_def
  replicate_numeral createFlushPkt_def

lemma createPktLine_NAK: "createPktLine ''NAK'' = ''0007NAK''"
  by (simp add: pkt_eval)

text \<open>A payload of 65532 bytes: its length plus four no longer fits in four hex digits.\<close>

lemma toString16_65536: "toString16 65536 = ''10000''"
  by (simp add: toString16_small toString16_large hexDigit_def)

lemma createPktLine_oversize:
  "createPktLine (replicate 65532 CHR ''x'') = ''10000'' @ replicate 65532 CHR ''x''"
  by (simp add: createPktLine_def toString16_65536 padStart4_def)

lemma hexVal_x: "hexVal CHR ''x'' = None"
  by (simp add: hexVal_def)

lemma parsePktLines_x: "parsePktLines (CHR ''x'' # cs) = Inl MalformedRequestError"
  by (subst parsePktLines.simps) (simp add: pktLength_def hexVal_x)

lemma parsePktLines_xs: "parsePktLines (replicate 61441 CHR ''x'') = Inl MalformedRequestError"
  by (subst replicate_numeral) (rule parsePktLines_x)

lemma parsePktLines_oversize:
  "parsePktLines (''10000'' @ replicate 65532 CHR ''x'') = Inl MalformedRequestError"
proof -
  define buf where "buf = ''10000'' @ replicate 65532 CHR ''x''"
  have pl: "pktLength buf = Some 4096"
    by (simp add: buf_def pktLength_def hexVal_def)
  have len: "length buf = 65537" and ne: "buf \<noteq> []"
    by (simp_all add: buf_def)
  have dr: "drop 4096 buf = replicate 61441 CHR ''x''"
    by (simp add: buf_def)
  have "parsePktLines buf = Inl MalformedRequestError"
    by (subst parsePktLines.simps) (simp add: pl len ne dr parsePktLines_xs)
  then show ?thesis by (simp only: buf_def)
qed

text \<open>
  Claim C8, as stated: for every finite sequence of ASCII strings without embedded NULs,
  decoding the concatenation of their encodings gives the sequence back. It fails for a
  string of 65532 bytes \<open>x\<close>: the encoder writes the five digits \<^verbatim>\<open>10000\<close>, the decoder
  reads the first four as the length 4096 and then meets a length field that is no
  hexadecimal number.
\<close>

theorem pkt_line_round_trip_counterexample:
  "list_all (\<lambda>c. c \<noteq> NUL \<and> (of_char c :: nat) < 128) (replicate 65532 CHR ''x'')
   \<and> parsePktLines (concat (map createPktLine [replicate 65532 CHR ''x'']))
       \<noteq> Inr [replicate 65532 CHR ''x'']"
proof -
  have "concat (map createPktLine [replicate 65532 CHR ''x''])
          = createPktLine (replicate 65532 CHR ''x'')"
    by simp
  then have "parsePktLines (concat (map createPktLine [replicate 65532 CHR ''x'']))
          = Inl MalformedRequestError"
    by (simp only: createPktLine_oversize parsePktLines_oversize)
  moreover have "list_all (\<lambda>c. c \<noteq> NUL \<and> (of_char c :: nat) < 128) (replicate 65532 CHR ''x'')"
    by (simp add: list_all_iff NUL_def)
  ultimately show ?thesis by simp
qed

text \<open>
  Claim C8, amended: for every finite sequence of strings of at most 65516 bytes each
  (the largest payload of a pkt-line), \<open>parsePktLines\<close> applied to the concatenation of
  \<open>createPktLine\<close> of each element returns exactly the sequence. No string encodes to a
  flush packet, so the hypothesis on embedded flushes is not needed.
\<close>

theorem pkt_line_round_trip:
  assumes "\<forall>s \<in> set seq. length s \<le> 65516"
  shows "parsePktLines (concat (map createPktLine seq)) = Inr seq"
  using assms
  by (induction seq) (simp_all add: parsePktLines_createPktLine parsePktLines_Nil)

theorem pkt_line_round_trip_witness:
  "parsePktLines (concat (map createPktLine [''want 0a'', '''', ''have 0b'']))
     = Inr [''want 0a'', '''', ''have 0b'']"
  using pkt_line_round_trip [of "[''want 0a'', '''', ''have 0b'']"] by simp

section \<open>Evaluation on concrete requests\<close>

lemmas demo_eval =
  memManager_def demoMem_def demoRequest_def oidA_def oidB_def oidC_def privateRepo_def
  publicRepo_def pkt_eval parsePktLines.simps pktLength_def hexVal_def
  startsWith_def secondField_def firstField_def walkCommits_def walkLoop.simps Let_def
  unpackCommits.simps
  new_Response_def c_text_def NUL_def LF_def CR_def

section \<open>Ref advertisement: service parameter and layout\<close>

text \<open>
  Claim C7: a GET info/refs request whose \<^verbatim>\<open>service\<close> query parameter is missing, or
  equal to neither \<^verbatim>\<open>git-upload-pack\<close> nor \<^verbatim>\<open>git-receive-pack\<close>, is answered with status
  400 and the text \<^verbatim>\<open>Service required\<close>; no collaborator is called, so no ref is read and
  no advertisement is produced.
\<close>

theorem info_refs_service_required:
  assumes "query_service req \<noteq> Some ''git-upload-pack''"
    and "query_service req \<noteq> Some ''git-receive-pack''"
  shows "info_refs rm st req
           = ([], Inr \<lparr>status = 400, headers = [], body = ''Service required''\<rparr>)"
  using assms by (auto simp: info_refs_def c_text_def Let_def split: option.splits)

theorem info_refs_service_required_witness:
  "info_refs (memManager publicRepo []) demoMem (demoRequest None (Some ''0xalice'') [])
     = ([], Inr \<lparr>status = 400, headers = [], body = ''Service required''\<rparr>)
   \<and> info_refs (memManager publicRepo []) demoMem
       (demoRequest (Some ''git-upload-archive'') (Some ''0xalice'') [])
     = ([], Inr \<lparr>status = 400, headers = [], body = ''Service required''\<rparr>)"
  using
    info_refs_service_required
      [of "demoRequest None (Some ''0xalice'') []" "memManager publicRepo []" demoMem]
    info_refs_service_required
      [of "demoRequest (Some ''git-upload-archive'') (Some ''0xalice'') []"
          "memManager publicRepo []" demoMem]
  by (simp add: demoRequest_def)

lemma capabilities_eq:
  "capabilities = ''report-status delete-refs side-band-64k quiet ofs-delta agent=jeju-git/1.0.0''"
  by (simp add: capabilities_def GIT_AGENT_def)

lemma refLines_Suc:
  "concat (refLines (Suc i) rs)
     = concat (map (\<lambda>r. createPktLine (ref_oid r @ '' '' @ ref_name r)) rs)"
  by (induction rs arbitrary: i) simp_all

lemma formatInfoRefs_layout:
  "formatInfoRefs service refs =
     createPktLine (''# service='' @ service) @ createFlushPkt
     @ (case refs of
          [] \<Rightarrow> createPktLine (replicate 40 CHR ''0'' @ '' capabilities^{}'' @ [NUL] @ capabilities)
        | r # rs \<Rightarrow>
            createPktLine (ref_oid r @ '' '' @ ref_name r @ [NUL] @ capabilities)
            @ concat (map (\<lambda>r. createPktLine (ref_oid r @ '' '' @ ref_name r)) rs))
     @ createFlushPkt"
  by (cases refs) (simp_all add: formatInfoRefs_def refLines_Suc)

lemma info_refs_200:
  assumes "info_refs rm st req = (t, Inr resp)" and "status resp = 200"
  shows "\<exists>service repo.
           query_service req = Some service
           \<and> getRepositoryByName rm st (param_owner req) (param_name req) = Some repo
           \<and> body resp = formatInfoRefs service (getRefs rm st (repoId repo))"
  using assms
  by (auto simp: info_refs_def advertise_def c_text_def new_Response_def Let_def
        split: option.splits if_splits)

text \<open>
  Claim C5: the body of every successful ref advertisement (status 200) is a pkt-line
  \<^verbatim>\<open># service=<name>\<close>, a flush packet, then either, for a repository without refs, one
  pkt-line of forty zeros, \<^verbatim>\<open> capabilities^{}\<close>, a NUL and the capability string, or one
  pkt-line \<^verbatim>\<open><oid> <refname>\<close> per ref, the first of them followed by a NUL and the
  capability string, and a final flush packet. The capability string is
  \<^verbatim>\<open>report-status delete-refs side-band-64k quiet ofs-delta agent=jeju-git/1.0.0\<close>.
\<close>

theorem info_refs_advertisement:
  assumes "info_refs rm st req = (t, Inr resp)" and "status resp = 200"
  shows "\<exists>service repo.
           query_service req = Some service
           \<and> getRepositoryByName rm st (param_owner req) (param_name req) = Some repo
           \<and> body resp =
               createPktLine (''# service='' @ service) @ createFlushPkt
               @ (case getRefs rm st (repoId repo) of
                    [] \<Rightarrow>
                      createPktLine
                        (replicate 40 CHR ''0'' @ '' capabilities^{}'' @ [NUL] @ capabilities)
                  | r # rs \<Rightarrow>
                      createPktLine (ref_oid r @ '' '' @ ref_name r @ [NUL] @ capabilities)
                      @ concat (map (\<lambda>r. createPktLine (ref_oid r @ '' '' @ ref_name r)) rs))
               @ createFlushPkt
           \<and> capabilities
               = ''report-status delete-refs side-band-64k quiet ofs-delta agent=jeju-git/1.0.0''"
proof -
  from info_refs_200 [OF assms] obtain service repo where
    "query_service req = Some service"
    "getRepositoryByName rm st (param_owner req) (param_name req) = Some repo"
    "body resp = formatInfoRefs service (getRefs rm st (repoId repo))"
    by blast
  then show ?thesis
    by (simp only: formatInfoRefs_layout capabilities_eq [symmetric]) blast
qed

lemma info_refs_public_demo:
  "info_refs (memManager publicRepo []) demoMem (demoRequest (Some ''git-upload-pack'') None [])
   = ([GetRepositoryByName ''0xowner'' ''demo'', GetRefs ''0x01''],
      Inr \<lparr>status = 200,
           headers = [(''Content-Type'', ''application/x-git-upload-pack-advertisement''),
                      (''Cache-Control'', ''no-cache'')],
           body = ''001d# service=git-upload-pack'' @ ''0000''
             @ ''0089'' @ oidB @ '' refs/heads/main'' @ [NUL]
             @ ''report-status delete-refs side-band-64k quiet ofs-delta agent=jeju-git/1.0.0''
             @ ''003b'' @ oidA @ '' refs/heads/dev''
             @ ''0000''\<rparr>)"
  by (simp add: info_refs_def advertise_def formatInfoRefs_def capabilities_def GIT_AGENT_def
        demo_eval)

theorem info_refs_advertisement_witness:
  "body (case snd (info_refs (memManager publicRepo []) demoMem
                     (demoRequest (Some ''git-upload-pack'') None [])) of
           Inr resp \<Rightarrow> resp)
     = createPktLine ''# service=git-upload-pack'' @ createFlushPkt
       @ createPktLine (oidB @ '' refs/heads/main'' @ [NUL] @ capabilities)
       @ createPktLine (oidA @ '' refs/heads/dev'')
       @ createFlushPkt"
proof -
  let ?rm = "memManager publicRepo []"
  let ?req = "demoRequest (Some ''git-upload-pack'') None []"
  from info_refs_advertisement [OF info_refs_public_demo] obtain service repo where
    s: "query_service ?req = Some service"
    and r: "getRepositoryByName ?rm demoMem (param_owner ?req) (param_name ?req) = Some repo"
    and b: "body (case snd (info_refs ?rm demoMem ?req) of Inr resp \<Rightarrow> resp) =
               createPktLine (''# service='' @ service) @ createFlushPkt
               @ (case getRefs ?rm demoMem (repoId repo) of
                    [] \<Rightarrow>
                      createPktLine
                        (replicate 40 CHR ''0'' @ '' capabilities^{}'' @ [NUL] @ capabilities)
                  | r # rs \<Rightarrow>
                      createPktLine (ref_oid r @ '' '' @ ref_name r @ [NUL] @ capabilities)
                      @ concat (map (\<lambda>r. createPktLine (ref_oid r @ '' '' @ ref_name r)) rs))
               @ createFlushPkt"
    by (simp only: info_refs_public_demo snd_conv sum.case) auto
  from s have "service = ''git-upload-pack''" by (simp add: demoRequest_def)
  moreover from r have "repo = publicRepo" by (simp add: memManager_def demoRequest_def)
  moreover have "getRefs ?rm demoMem (repoId publicRepo)
      = [\<lparr>ref_name = ''refs/heads/main'', ref_oid = oidB\<rparr>,
         \<lparr>ref_name = ''refs/heads/dev'', ref_oid = oidA\<rparr>]"
    by (simp add: memManager_def demoMem_def)
  ultimately show ?thesis using b by simp
qed

section \<open>Fetch: the oids sent and the response body\<close>

lemma pushNeeded_eq:
  "pushNeeded haves reachable acc = acc @ filter (\<lambda>oid. oid \<notin> set haves) reachable"
  by (induction reachable arbitrary: acc) simp_all

lemma collectNeeded_eq:
  "collectNeeded reach haves wants acc
     = acc @ concat (map (\<lambda>w. filter (\<lambda>oid. oid \<notin> set haves) (reach w)) wants)"
  by (induction wants arbitrary: acc) (simp_all add: pushNeeded_eq)

lemma set_collectNeeded:
  "set (collectNeeded reach haves wants []) = (\<Union>w \<in> set wants. set (reach w)) - set haves"
  by (auto simp: collectNeeded_eq)

lemma collectWantsHaves_eq:
  "collectWantsHaves lines (wants, haves) =
     (wants @ map secondField (filter (\<lambda>l. startsWith l ''want '') lines),
      haves @ map secondField
                (filter (\<lambda>l. \<not> startsWith l ''want '' \<and> startsWith l ''have '') lines))"
  by (induction lines arbitrary: wants haves) simp_all

text \<open>Under its guard, \<^verbatim>\<open>line.split(' ')[1]\<close> is defined: the text between the first space
  and the next one.\<close>

lemma split_char_nonempty: "split_char sep s \<noteq> []"
  by (induction s) (auto split: list.splits)

lemma secondField_want:
  "secondField (''want '' @ s) = takeWhile (\<lambda>c. c \<noteq> CHR '' '') s"
proof -
  have "\<exists>ws. split_char CHR '' '' s = takeWhile (\<lambda>c. c \<noteq> CHR '' '') s # ws"
    by (induction s) (auto split: list.splits)
  then show ?thesis by (auto simp: secondField_def)
qed

text \<open>What the part after the access check answers.\<close>

lemma upload_pack_serve_trace:
  assumes "CreatePackfile rid oids \<in> set (fst (upload_pack_serve rm st repo req t0))"
    and "CreatePackfile rid oids \<notin> set t0"
  shows "\<exists>lines wants haves.
           rid = repoId repo
           \<and> parsePktLines (arrayBuffer req) = Inr lines
           \<and> collectWantsHaves lines ([], []) = (wants, haves)
           \<and> wants \<noteq> []
           \<and> oids = collectNeeded (getReachableObjects rm st rid) haves wants []"
  using assms
  by (auto simp: upload_pack_serve_def Let_def split: sum.splits prod.splits if_splits)

lemma upload_pack_trace:
  assumes "CreatePackfile rid oids \<in> set (fst (git_upload_pack rm st req))"
  shows "\<exists>repo u.
           CreatePackfile rid oids
             \<in> set (fst (upload_pack_serve rm st repo req
                            [GetRepositoryByName (param_owner req) (param_name req)]))
           \<or> CreatePackfile rid oids
             \<in> set (fst (upload_pack_serve rm st repo req
                            [GetRepositoryByName (param_owner req) (param_name req),
                             HasReadAccess (repoId repo) u]))"
  using assms
  by (simp add: git_upload_pack_def Let_def c_text_def split: option.splits if_splits) blast+

lemma upload_pack_serve_200:
  assumes "upload_pack_serve rm st repo req t0 = (t, Inr resp)"
  shows "\<exists>lines.
           parsePktLines (arrayBuffer req) = Inr lines
           \<and> (if filter (\<lambda>l. startsWith l ''want '') lines = []
               then body resp = createPktLine ''NAK''
               else (\<exists>oids packfile.
                       CreatePackfile (repoId repo) oids \<in> set t
                       \<and> createPackfile rm st (repoId repo) oids = Inr packfile
                       \<and> body resp = createPktLine ''NAK'' @ packfile))"
proof -
  from assms obtain lines where p: "parsePktLines (arrayBuffer req) = Inr lines"
    by (auto simp: upload_pack_serve_def split: sum.splits)
  obtain wants haves where c: "collectWantsHaves lines ([], []) = (wants, haves)"
    by (cases "collectWantsHaves lines ([], [])") auto
  then have w: "wants = map secondField (filter (\<lambda>l. startsWith l ''want '') lines)"
    by (simp add: collectWantsHaves_eq)
  show ?thesis
  proof (cases "wants = []")
    case True
    with assms p c have "body resp = createPktLine ''NAK''"
      by (auto simp: upload_pack_serve_def new_Response_def)
    with p True w show ?thesis by auto
  next
    case False
    let ?oids = "collectNeeded (getReachableObjects rm st (repoId repo)) haves wants []"
    from assms p c False obtain packfile where
      "createPackfile rm st (repoId repo) ?oids = Inr packfile"
      "t = t0 @ map (GetReachableObjects (repoId repo)) wants @ [CreatePackfile (repoId repo) ?oids]"
      "body resp = createPktLine ''NAK'' @ packfile"
      by (auto simp: upload_pack_serve_def Let_def new_Response_def split: sum.splits)
    then have "\<exists>oids packfile.
                       CreatePackfile (repoId repo) oids \<in> set t
                       \<and> createPackfile rm st (repoId repo) oids = Inr packfile
                       \<and> body resp = createPktLine ''NAK'' @ packfile"
      by auto
    with p False w show ?thesis by auto
  qed
qed

lemma upload_pack_200:
  assumes "git_upload_pack rm st req = (t, Inr resp)" and "status resp = 200"
  shows "\<exists>repo t0. getRepositoryByName rm st (param_owner req) (param_name req) = Some repo
            \<and> upload_pack_serve rm st repo req t0 = (t, Inr resp)"
  using assms
  by (auto simp: git_upload_pack_def Let_def c_text_def split: option.splits if_splits)


text \<open>
  Claim C3, as stated: the collection of oids passed to \<open>createPackfile\<close> holds no duplicate.
  It fails when two wants reach a common object: a fetch of \<open>oidB\<close> and of its parent
  \<open>oidA\<close> passes \<open>oidA\<close> twice.
\<close>

lemma fetch_overlap:
  "git_upload_pack (memManager privateRepo [''0xalice'']) demoMem
     (demoRequest None (Some ''0xalice'')
        (createPktLine (''want '' @ oidB) @ createPktLine (''want '' @ oidA) @ createFlushPkt))
   = ([GetRepositoryByName ''0xowner'' ''demo'', HasReadAccess ''0x01'' ''0xalice'',
       GetReachableObjects ''0x01'' oidB, GetReachableObjects ''0x01'' oidA,
       CreatePackfile ''0x01'' [oidB, oidA, oidA]],
      Inr \<lparr>status = 200,
           headers = [(''Content-Type'', ''application/x-git-upload-pack-result''),
                      (''Cache-Control'', ''no-cache'')],
           body = ''0007NAK'' @ ''PACK'' @ oidB @ oidA @ oidA\<rparr>)"
  by (simp add: git_upload_pack_def upload_pack_serve_def demo_eval)

theorem upload_pack_needed_oids_counterexample:
  "CreatePackfile ''0x01'' [oidB, oidA, oidA]
     \<in> set (fst (git_upload_pack (memManager privateRepo [''0xalice'']) demoMem
                  (demoRequest None (Some ''0xalice'')
                     (createPktLine (''want '' @ oidB) @ createPktLine (''want '' @ oidA)
                      @ createFlushPkt))))
   \<and> \<not> distinct [oidB, oidA, oidA]"
  by (simp only: fetch_overlap) simp

text \<open>
  Claim C3, amended: for every upload-pack request that reaches \<open>createPackfile\<close> (the body
  parses and has at least one want line), the list of oids passed is, want by want in
  request order, the reachable oids of that want that are not in the have set. As a set it
  is exactly the union over all wants of \<open>getReachableObjects\<close> minus the have set: every
  such oid is included, no other oid is, and no oid of the have set is. An oid reachable
  from several wants is passed once for each of them.
\<close>

theorem upload_pack_needed_oids:
  assumes "CreatePackfile rid oids \<in> set (fst (git_upload_pack rm st req))"
  shows "\<exists>lines wants haves.
           parsePktLines (arrayBuffer req) = Inr lines
           \<and> wants = map secondField (filter (\<lambda>l. startsWith l ''want '') lines)
           \<and> haves = map secondField
                       (filter (\<lambda>l. \<not> startsWith l ''want '' \<and> startsWith l ''have '') lines)
           \<and> wants \<noteq> []
           \<and> oids = concat (map (\<lambda>w. filter (\<lambda>oid. oid \<notin> set haves)
                                        (getReachableObjects rm st rid w)) wants)
           \<and> set oids = (\<Union>w \<in> set wants. set (getReachableObjects rm st rid w)) - set haves"
proof -
  from upload_pack_trace [OF assms] obtain repo t0 where
    "CreatePackfile rid oids \<in> set (fst (upload_pack_serve rm st repo req t0))"
    "CreatePackfile rid oids \<notin> set t0"
    by fastforce
  from upload_pack_serve_trace [OF this] obtain lines wants haves where
    p: "parsePktLines (arrayBuffer req) = Inr lines"
    and c: "collectWantsHaves lines ([], []) = (wants, haves)"
    and w: "wants \<noteq> []"
    and o: "oids = collectNeeded (getReachableObjects rm st rid) haves wants []"
    by blast
  from c have "wants = map secondField (filter (\<lambda>l. startsWith l ''want '') lines)"
    and "haves = map secondField
                   (filter (\<lambda>l. \<not> startsWith l ''want '' \<and> startsWith l ''have '') lines)"
    by (simp_all add: collectWantsHaves_eq)
  moreover from o have "oids = concat (map (\<lambda>w. filter (\<lambda>oid. oid \<notin> set haves)
                                        (getReachableObjects rm st rid w)) wants)"
    by (simp add: collectNeeded_eq)
  moreover from o have
    "set oids = (\<Union>w \<in> set wants. set (getReachableObjects rm st rid w)) - set haves"
    by (simp add: set_collectNeeded)
  ultimately show ?thesis using p w by blast
qed

lemma fetch_incremental:
  "git_upload_pack (memManager privateRepo [''0xalice'']) demoMem
     (demoRequest None (Some ''0xalice'')
        (createPktLine (''want '' @ oidB) @ createPktLine (''have '' @ oidA) @ createFlushPkt))
   = ([GetRepositoryByName ''0xowner'' ''demo'', HasReadAccess ''0x01'' ''0xalice'',
       GetReachableObjects ''0x01'' oidB, CreatePackfile ''0x01'' [oidB]],
      Inr \<lparr>status = 200,
           headers = [(''Content-Type'', ''application/x-git-upload-pack-result''),
                      (''Cache-Control'', ''no-cache'')],
           body = ''0007NAK'' @ ''PACK'' @ oidB\<rparr>)"
  by (simp add: git_upload_pack_def upload_pack_serve_def demo_eval)

lemma parse_fetch_incremental:
  "parsePktLines
     (arrayBuffer (demoRequest None (Some ''0xalice'')
        (createPktLine (''want '' @ oidB) @ createPktLine (''have '' @ oidA) @ createFlushPkt)))
   = Inr [''want '' @ oidB, ''have '' @ oidA]"
  by (simp add: demoRequest_def oidA_def oidB_def pkt_eval parsePktLines.simps pktLength_def
        hexVal_def)

theorem upload_pack_needed_oids_witness:
  "CreatePackfile ''0x01'' [oidB]
     \<in> set (fst (git_upload_pack (memManager privateRepo [''0xalice'']) demoMem
                  (demoRequest None (Some ''0xalice'')
                     (createPktLine (''want '' @ oidB) @ createPktLine (''have '' @ oidA)
                      @ createFlushPkt))))
   \<and> set [oidB]
       = set (getReachableObjects (memManager privateRepo [''0xalice'']) demoMem ''0x01'' oidB)
         - set [oidA]"
proof -
  let ?req = "demoRequest None (Some ''0xalice'')
                (createPktLine (''want '' @ oidB) @ createPktLine (''have '' @ oidA)
                 @ createFlushPkt)"
  let ?rm = "memManager privateRepo [''0xalice'']"
  have e: "CreatePackfile ''0x01'' [oidB] \<in> set (fst (git_upload_pack ?rm demoMem ?req))"
    by (simp only: fetch_incremental) simp
  from upload_pack_needed_oids [OF e] obtain lines wants haves where
    p: "parsePktLines (arrayBuffer ?req) = Inr lines"
    and w: "wants = map secondField (filter (\<lambda>l. startsWith l ''want '') lines)"
    and h: "haves = map secondField
                      (filter (\<lambda>l. \<not> startsWith l ''want '' \<and> startsWith l ''have '') lines)"
    and s: "set [oidB] = (\<Union>w \<in> set wants. set (getReachableObjects ?rm demoMem ''0x01'' w))
                          - set haves"
    by blast
  from p have l: "lines = [''want '' @ oidB, ''have '' @ oidA]"
    by (simp only: parse_fetch_incremental) simp
  have "wants = [oidB]" and "haves = [oidA]"
    unfolding w h l by (simp_all add: startsWith_def secondField_def oidA_def oidB_def)
  with s have "set [oidB] = set (getReachableObjects ?rm demoMem ''0x01'' oidB) - set [oidA]"
    by simp
  with e show ?thesis by (rule conjI)
qed

text \<open>
  Claim C4: an upload-pack request that is answered with status 200 has a body that parses
  into pkt-lines; if none of the lines is a want line, the response body is exactly the
  pkt-line \<^verbatim>\<open>NAK\<close> (the bytes \<^verbatim>\<open>0007NAK\<close>); otherwise it is that pkt-line followed
  immediately by the bytes that \<open>createPackfile\<close> returned, with no further framing.
\<close>

theorem upload_pack_response_body:
  assumes "git_upload_pack rm st req = (t, Inr resp)" and "status resp = 200"
  shows "\<exists>lines repo.
           getRepositoryByName rm st (param_owner req) (param_name req) = Some repo
           \<and> parsePktLines (arrayBuffer req) = Inr lines
           \<and> (if filter (\<lambda>l. startsWith l ''want '') lines = []
               then body resp = createPktLine ''NAK''
               else (\<exists>oids packfile.
                       CreatePackfile (repoId repo) oids \<in> set t
                       \<and> createPackfile rm st (repoId repo) oids = Inr packfile
                       \<and> body resp = createPktLine ''NAK'' @ packfile))
           \<and> createPktLine ''NAK'' = ''0007NAK''"
proof -
  from upload_pack_200 [OF assms] obtain repo t0 where
    r: "getRepositoryByName rm st (param_owner req) (param_name req) = Some repo"
    and s: "upload_pack_serve rm st repo req t0 = (t, Inr resp)"
    by blast
  from upload_pack_serve_200 [OF s] r show ?thesis
    by (simp only: createPktLine_NAK) blast
qed

lemma fetch_nothing:
  "git_upload_pack (memManager privateRepo [''0xalice'']) demoMem
     (demoRequest None (Some ''0xalice'') (createPktLine (''have '' @ oidA) @ createFlushPkt))
   = ([GetRepositoryByName ''0xowner'' ''demo'', HasReadAccess ''0x01'' ''0xalice''],
      Inr \<lparr>status = 200,
           headers = [(''Content-Type'', ''application/x-git-upload-pack-result'')],
           body = ''0007NAK''\<rparr>)"
  by (simp add: git_upload_pack_def upload_pack_serve_def demo_eval)

lemma parse_fetch_nothing:
  "parsePktLines
     (arrayBuffer (demoRequest None (Some ''0xalice'')
        (createPktLine (''have '' @ oidA) @ createFlushPkt)))
   = Inr [''have '' @ oidA]"
  by (simp add: demoRequest_def oidA_def oidB_def pkt_eval parsePktLines.simps pktLength_def
        hexVal_def)

theorem upload_pack_response_body_witness:
  "body (case snd (git_upload_pack (memManager privateRepo [''0xalice'']) demoMem
                (demoRequest None (Some ''0xalice'')
                   (createPktLine (''have '' @ oidA) @ createFlushPkt))) of
           Inr resp \<Rightarrow> resp) = createPktLine ''NAK''
   \<and> (\<exists>packfile.
         createPackfile (memManager privateRepo [''0xalice'']) demoMem ''0x01'' [oidB] = Inr packfile
         \<and> body (case snd (git_upload_pack (memManager privateRepo [''0xalice'']) demoMem
                (demoRequest None (Some ''0xalice'')
                   (createPktLine (''want '' @ oidB) @ createPktLine (''have '' @ oidA)
                    @ createFlushPkt))) of
               Inr resp \<Rightarrow> resp) = createPktLine ''NAK'' @ packfile)"
proof -
  let ?rm = "memManager privateRepo [''0xalice'']"
  let ?req0 = "demoRequest None (Some ''0xalice'') (createPktLine (''have '' @ oidA) @ createFlushPkt)"
  let ?req1 = "demoRequest None (Some ''0xalice'')
                 (createPktLine (''want '' @ oidB) @ createPktLine (''have '' @ oidA)
                  @ createFlushPkt)"
  let ?r0 = "\<lparr>status = 200,
           headers = [(''Content-Type'', ''application/x-git-upload-pack-result'')],
           body = ''0007NAK''\<rparr>"
  let ?r1 = "\<lparr>status = 200,
           headers = [(''Content-Type'', ''application/x-git-upload-pack-result''),
                      (''Cache-Control'', ''no-cache'')],
           body = ''0007NAK'' @ ''PACK'' @ oidB\<rparr>"
  from upload_pack_response_body [OF fetch_nothing] obtain lines0 where
    "parsePktLines (arrayBuffer ?req0) = Inr lines0"
    and i0: "if filter (\<lambda>l. startsWith l ''want '') lines0 = []
             then body ?r0 = createPktLine ''NAK''
             else (\<exists>oids packfile. body ?r0 = createPktLine ''NAK'' @ packfile)"
    by fastforce
  then have "lines0 = [''have '' @ oidA]"
    by (simp only: parse_fetch_nothing) simp
  with i0 have a: "body ?r0 = createPktLine ''NAK''"
    by (simp add: startsWith_def)
  from upload_pack_response_body [OF fetch_incremental] obtain lines1 repo where
    r: "getRepositoryByName ?rm demoMem (param_owner ?req1) (param_name ?req1) = Some repo"
    and p1: "parsePktLines (arrayBuffer ?req1) = Inr lines1"
    and i1: "if filter (\<lambda>l. startsWith l ''want '') lines1 = []
             then body ?r1 = createPktLine ''NAK''
             else (\<exists>oids packfile.
                     CreatePackfile (repoId repo) oids
                       \<in> set [GetRepositoryByName ''0xowner'' ''demo'',
                               HasReadAccess ''0x01'' ''0xalice'',
                               GetReachableObjects ''0x01'' oidB, CreatePackfile ''0x01'' [oidB]]
                     \<and> createPackfile ?rm demoMem (repoId repo) oids = Inr packfile
                     \<and> body ?r1 = createPktLine ''NAK'' @ packfile)"
    by fastforce
  from r have "repoId repo = ''0x01''"
    by (auto simp: memManager_def demoRequest_def privateRepo_def)
  moreover from p1 have "lines1 = [''want '' @ oidB, ''have '' @ oidA]"
    by (simp only: parse_fetch_incremental) simp
  ultimately have "repoId repo = ''0x01'' \<and> lines1 = [''want '' @ oidB, ''have '' @ oidA]"
    by (rule conjI)
  with i1 have b: "\<exists>packfile. createPackfile ?rm demoMem ''0x01'' [oidB] = Inr packfile
                     \<and> body ?r1 = createPktLine ''NAK'' @ packfile"
    by (auto simp: startsWith_def)
  from a b show ?thesis
    by (simp only: fetch_nothing fetch_incremental snd_conv sum.case)
qed

section \<open>Access control on reads\<close>

text \<open>The part of the upload-pack handler after the access check extends the trace it is
  given, makes no access check of its own, does not read the actor header, and answers
  with status 200 when it answers.\<close>

lemma upload_pack_serve_prefix:
  "\<exists>t out. upload_pack_serve rm st repo req t0 = (t0 @ t, out)
            \<and> (\<forall>r u. HasReadAccess r u \<notin> set t)"
  by (auto simp: upload_pack_serve_def Let_def split: sum.splits prod.splits)

lemma upload_pack_serve_header:
  "upload_pack_serve rm st repo (req\<lparr>header_x_jeju_address := h\<rparr>) t0
     = upload_pack_serve rm st repo req t0"
  by (simp add: upload_pack_serve_def)

lemma upload_pack_serve_status:
  assumes "snd (upload_pack_serve rm st repo req t0) = Inr resp"
  shows "status resp = 200"
  using assms
  by (auto simp: upload_pack_serve_def Let_def new_Response_def
           split: sum.splits prod.splits if_splits)

text \<open>
  Claim C6, as stated: for every ref advertisement and every upload-pack request
  \<open>hasReadAccess\<close> is consulted before ref or object data is returned, and a missing actor
  yields 401. It fails on a public repository (visibility 0): an advertisement request
  without the \<^verbatim>\<open>x-jeju-address\<close> header is answered with status 200 and the refs, and
  \<open>hasReadAccess\<close> is never called. It fails also on an advertisement for
  \<^verbatim>\<open>git-receive-pack\<close>, on a private repository: a member whom \<open>hasReadAccess\<close> would
  deny is answered with status 200 and the refs after \<open>hasWriteAccess\<close> alone.
\<close>

theorem read_access_counterexample:
  "header_x_jeju_address (demoRequest (Some ''git-upload-pack'') None []) = None
   \<and> info_refs (memManager publicRepo []) demoMem (demoRequest (Some ''git-upload-pack'') None [])
     = ([GetRepositoryByName ''0xowner'' ''demo'', GetRefs ''0x01''],
        Inr \<lparr>status = 200,
             headers = [(''Content-Type'', ''application/x-git-upload-pack-advertisement''),
                        (''Cache-Control'', ''no-cache'')],
             body = formatInfoRefs ''git-upload-pack''
                      [\<lparr>ref_name = ''refs/heads/main'', ref_oid = oidB\<rparr>,
                       \<lparr>ref_name = ''refs/heads/dev'', ref_oid = oidA\<rparr>]\<rparr>)
   \<and> visibility privateRepo = 1
   \<and> hasReadAccess writeOnlyManager demoMem ''0x01'' ''0xalice'' = False
   \<and> info_refs writeOnlyManager demoMem
        (demoRequest (Some ''git-receive-pack'') (Some ''0xalice'') [])
     = ([GetRepositoryByName ''0xowner'' ''demo'', HasWriteAccess ''0x01'' ''0xalice'',
         GetRefs ''0x01''],
        Inr \<lparr>status = 200,
             headers = [(''Content-Type'', ''application/x-git-receive-pack-advertisement''),
                        (''Cache-Control'', ''no-cache'')],
             body = formatInfoRefs ''git-receive-pack''
                      [\<lparr>ref_name = ''refs/heads/main'', ref_oid = oidB\<rparr>,
                       \<lparr>ref_name = ''refs/heads/dev'', ref_oid = oidA\<rparr>]\<rparr>)"
  by (simp add: info_refs_def advertise_def writeOnlyManager_def memManager_def demoMem_def
        demoRequest_def publicRepo_def privateRepo_def new_Response_def Let_def)

text \<open>
  Claim C6, amended. On a private repository (visibility 1), for every upload-pack request
  and every ref advertisement for \<^verbatim>\<open>git-upload-pack\<close>: a missing or empty actor header
  yields 401 and a denied \<open>hasReadAccess\<close> yields 403, in both cases with the plain error
  text as the whole body and without any call that reads refs or objects; when access is
  granted, the call of \<open>hasReadAccess\<close> comes second in the trace, right after the
  repository lookup and before every call that reads refs or objects, it is the only such
  call, and the advertisement is the one of the refs read. On a repository of any other
  visibility no read check is made and no actor is needed: the answer to an upload-pack
  request does not depend on the actor header, its trace holds no call of
  \<open>hasReadAccess\<close>, its status is never 401 or 403, and an advertisement for
  \<^verbatim>\<open>git-upload-pack\<close> reads the refs right after the repository lookup. A ref
  advertisement for \<^verbatim>\<open>git-receive-pack\<close> consults \<open>hasWriteAccess\<close> instead, whatever
  the visibility: 401 without actor, 403 with the text \<^verbatim>\<open>Write access denied\<close> when the
  check denies, and the refs after that one check when it grants.
\<close>

theorem read_access_check:
  assumes "getRepositoryByName rm st (param_owner req) (param_name req) = Some repo"
  shows
    "(visibility repo = 1 \<longrightarrow>
       (case header_x_jeju_address req of
          None \<Rightarrow>
            git_upload_pack rm st req
              = ([GetRepositoryByName (param_owner req) (param_name req)],
                 Inr \<lparr>status = 401, headers = [], body = ''Authentication required''\<rparr>)
            \<and> (query_service req = Some ''git-upload-pack'' \<longrightarrow>
                 info_refs rm st req
                   = ([GetRepositoryByName (param_owner req) (param_name req)],
                      Inr \<lparr>status = 401, headers = [], body = ''Authentication required''\<rparr>))
        | Some u \<Rightarrow>
            if u = [] then
              git_upload_pack rm st req
                = ([GetRepositoryByName (param_owner req) (param_name req)],
                   Inr \<lparr>status = 401, headers = [], body = ''Authentication required''\<rparr>)
              \<and> (query_service req = Some ''git-upload-pack'' \<longrightarrow>
                   info_refs rm st req
                     = ([GetRepositoryByName (param_owner req) (param_name req)],
                        Inr \<lparr>status = 401, headers = [], body = ''Authentication required''\<rparr>))
            else if hasReadAccess rm st (repoId repo) u then
              (\<exists>t out.
                 git_upload_pack rm st req
                   = ([GetRepositoryByName (param_owner req) (param_name req),
                       HasReadAccess (repoId repo) u] @ t, out)
                 \<and> (\<forall>r v. HasReadAccess r v \<notin> set t))
              \<and> (query_service req = Some ''git-upload-pack'' \<longrightarrow>
                   info_refs rm st req
                     = ([GetRepositoryByName (param_owner req) (param_name req),
                         HasReadAccess (repoId repo) u, GetRefs (repoId repo)],
                        Inr \<lparr>status = 200,
                             headers =
                               [(''Content-Type'', ''application/x-git-upload-pack-advertisement''),
                                (''Cache-Control'', ''no-cache'')],
                             body = formatInfoRefs ''git-upload-pack''
                                      (getRefs rm st (repoId repo))\<rparr>))
            else
              git_upload_pack rm st req
                = ([GetRepositoryByName (param_owner req) (param_name req),
                    HasReadAccess (repoId repo) u],
                   Inr \<lparr>status = 403, headers = [], body = ''Read access denied''\<rparr>)
              \<and> (query_service req = Some ''git-upload-pack'' \<longrightarrow>
                   info_refs rm st req
                     = ([GetRepositoryByName (param_owner req) (param_name req),
                         HasReadAccess (repoId repo) u],
                        Inr \<lparr>status = 403, headers = [], body = ''Read access denied''\<rparr>))))
     \<and> (visibility repo \<noteq> 1 \<longrightarrow>
          (\<forall>h. git_upload_pack rm st (req\<lparr>header_x_jeju_address := h\<rparr>)
                 = git_upload_pack rm st req)
          \<and> (\<exists>t out.
                git_upload_pack rm st req
                  = ([GetRepositoryByName (param_owner req) (param_name req)] @ t, out)
                \<and> (\<forall>r u. HasReadAccess r u \<notin> set t))
          \<and> (\<forall>resp. snd (git_upload_pack rm st req) = Inr resp \<longrightarrow> status resp = 200)
          \<and> (query_service req = Some ''git-upload-pack'' \<longrightarrow>
                info_refs rm st req
                  = ([GetRepositoryByName (param_owner req) (param_name req),
                      GetRefs (repoId repo)],
                     Inr \<lparr>status = 200,
                          headers =
                            [(''Content-Type'', ''application/x-git-upload-pack-advertisement''),
                             (''Cache-Control'', ''no-cache'')],
                          body = formatInfoRefs ''git-upload-pack''
                                   (getRefs rm st (repoId repo))\<rparr>)))
     \<and> (query_service req = Some ''git-receive-pack'' \<longrightarrow>
          (case header_x_jeju_address req of
             None \<Rightarrow>
               info_refs rm st req
                 = ([GetRepositoryByName (param_owner req) (param_name req)],
                    Inr \<lparr>status = 401, headers = [], body = ''Authentication required''\<rparr>)
           | Some u \<Rightarrow>
               if u = [] then
                 info_refs rm st req
                   = ([GetRepositoryByName (param_owner req) (param_name req)],
                      Inr \<lparr>status = 401, headers = [], body = ''Authentication required''\<rparr>)
               else if hasWriteAccess rm st (repoId repo) u then
                 info_refs rm st req
                   = ([GetRepositoryByName (param_owner req) (param_name req),
                       HasWriteAccess (repoId repo) u, GetRefs (repoId repo)],
                      Inr \<lparr>status = 200,
                           headers =
                             [(''Content-Type'', ''application/x-git-receive-pack-advertisement''),
                              (''Cache-Control'', ''no-cache'')],
                           body = formatInfoRefs ''git-receive-pack''
                                    (getRefs rm st (repoId repo))\<rparr>)
               else
                 info_refs rm st req
                   = ([GetRepositoryByName (param_owner req) (param_name req),
                       HasWriteAccess (repoId repo) u],
                      Inr \<lparr>status = 403, headers = [], body = ''Write access denied''\<rparr>)))"
proof (intro conjI impI)
  assume v: "visibility repo = 1"
  show "case header_x_jeju_address req of
          None \<Rightarrow>
            git_upload_pack rm st req
              = ([GetRepositoryByName (param_owner req) (param_name req)],
                 Inr \<lparr>status = 401, headers = [], body = ''Authentication required''\<rparr>)
            \<and> (query_service req = Some ''git-upload-pack'' \<longrightarrow>
                 info_refs rm st req
                   = ([GetRepositoryByName (param_owner req) (param_name req)],
                      Inr \<lparr>status = 401, headers = [], body = ''Authentication required''\<rparr>))
        | Some u \<Rightarrow>
            if u = [] then
              git_upload_pack rm st req
                = ([GetRepositoryByName (param_owner req) (param_name req)],
                   Inr \<lparr>status = 401, headers = [], body = ''Authentication required''\<rparr>)
              \<and> (query_service req = Some ''git-upload-pack'' \<longrightarrow>
                   info_refs rm st req
                     = ([GetRepositoryByName (param_owner req) (param_name req)],
                        Inr \<lparr>status = 401, headers = [], body = ''Authentication required''\<rparr>))
            else if hasReadAccess rm st (repoId repo) u then
              (\<exists>t out.
                 git_upload_pack rm st req
                   = ([GetRepositoryByName (param_owner req) (param_name req),
                       HasReadAccess (repoId repo) u] @ t, out)
                 \<and> (\<forall>r v. HasReadAccess r v \<notin> set t))
              \<and> (query_service req = Some ''git-upload-pack'' \<longrightarrow>
                   info_refs rm st req
                     = ([GetRepositoryByName (param_owner req) (param_name req),
                         HasReadAccess (repoId repo) u, GetRefs (repoId repo)],
                        Inr \<lparr>status = 200,
                             headers =
                               [(''Content-Type'', ''application/x-git-upload-pack-advertisement''),
                                (''Cache-Control'', ''no-cache'')],
                             body = formatInfoRefs ''git-upload-pack''
                                      (getRefs rm st (repoId repo))\<rparr>))
            else
              git_upload_pack rm st req
                = ([GetRepositoryByName (param_owner req) (param_name req),
                    HasReadAccess (repoId repo) u],
                   Inr \<lparr>status = 403, headers = [], body = ''Read access denied''\<rparr>)
              \<and> (query_service req = Some ''git-upload-pack'' \<longrightarrow>
                   info_refs rm st req
                     = ([GetRepositoryByName (param_owner req) (param_name req),
                         HasReadAccess (repoId repo) u],
                        Inr \<lparr>status = 403, headers = [], body = ''Read access denied''\<rparr>))"
  proof (cases "header_x_jeju_address req")
    case None
    with assms v show ?thesis
      by (simp add: git_upload_pack_def info_refs_def c_text_def Let_def)
  next
    case (Some u)
    show ?thesis
    proof (cases "u = []")
      case True
      with Some assms v show ?thesis
        by (simp add: git_upload_pack_def info_refs_def c_text_def Let_def)
    next
      case False
      show ?thesis
      proof (cases "hasReadAccess rm st (repoId repo) u")
        case True
        with Some False assms v
          upload_pack_serve_prefix
            [of rm st repo req "[GetRepositoryByName (param_owner req) (param_name req),
                                 HasReadAccess (repoId repo) u]"]
        show ?thesis
          by (simp add: git_upload_pack_def info_refs_def advertise_def c_text_def
                new_Response_def Let_def)
      next
        case denied: False
        with Some False assms v show ?thesis
          by (simp add: git_upload_pack_def info_refs_def c_text_def Let_def)
      qed
    qed
  qed
next
  assume v: "visibility repo \<noteq> 1"
  with assms have g: "git_upload_pack rm st req
      = upload_pack_serve rm st repo req [GetRepositoryByName (param_owner req) (param_name req)]"
    by (simp add: git_upload_pack_def Let_def)
  from assms v have "git_upload_pack rm st (req\<lparr>header_x_jeju_address := h\<rparr>)
      = upload_pack_serve rm st repo req [GetRepositoryByName (param_owner req) (param_name req)]"
    for h
    by (simp add: git_upload_pack_def Let_def upload_pack_serve_header)
  with g show "\<forall>h. git_upload_pack rm st (req\<lparr>header_x_jeju_address := h\<rparr>)
                     = git_upload_pack rm st req"
    by simp
  from g upload_pack_serve_prefix
         [of rm st repo req "[GetRepositoryByName (param_owner req) (param_name req)]"]
  show "\<exists>t out.
          git_upload_pack rm st req
            = ([GetRepositoryByName (param_owner req) (param_name req)] @ t, out)
          \<and> (\<forall>r u. HasReadAccess r u \<notin> set t)"
    by simp
  from g show "\<forall>resp. snd (git_upload_pack rm st req) = Inr resp \<longrightarrow> status resp = 200"
    by (auto dest: upload_pack_serve_status)
next
  assume "visibility repo \<noteq> 1" and "query_service req = Some ''git-upload-pack''"
  with assms show "info_refs rm st req
                  = ([GetRepositoryByName (param_owner req) (param_name req),
                      GetRefs (repoId repo)],
                     Inr \<lparr>status = 200,
                          headers =
                            [(''Content-Type'', ''application/x-git-upload-pack-advertisement''),
                             (''Cache-Control'', ''no-cache'')],
                          body = formatInfoRefs ''git-upload-pack''
                                   (getRefs rm st (repoId repo))\<rparr>)"
    by (simp add: info_refs_def advertise_def new_Response_def Let_def)
next
  assume "query_service req = Some ''git-receive-pack''"
  with assms show
    "case header_x_jeju_address req of
             None \<Rightarrow>
               info_refs rm st req
                 = ([GetRepositoryByName (param_owner req) (param_name req)],
                    Inr \<lparr>status = 401, headers = [], body = ''Authentication required''\<rparr>)
           | Some u \<Rightarrow>
               if u = [] then
                 info_refs rm st req
                   = ([GetRepositoryByName (param_owner req) (param_name req)],
                      Inr \<lparr>status = 401, headers = [], body = ''Authentication required''\<rparr>)
               else if hasWriteAccess rm st (repoId repo) u then
                 info_refs rm st req
                   = ([GetRepositoryByName (param_owner req) (param_name req),
                       HasWriteAccess (repoId repo) u, GetRefs (repoId repo)],
                      Inr \<lparr>status = 200,
                           headers =
                             [(''Content-Type'', ''application/x-git-receive-pack-advertisement''),
                              (''Cache-Control'', ''no-cache'')],
                           body = formatInfoRefs ''git-receive-pack''
                                    (getRefs rm st (repoId repo))\<rparr>)
               else
                 info_refs rm st req
                   = ([GetRepositoryByName (param_owner req) (param_name req),
                       HasWriteAccess (repoId repo) u],
                      Inr \<lparr>status = 403, headers = [], body = ''Write access denied''\<rparr>)"
    by (simp add: info_refs_def advertise_def c_text_def new_Response_def Let_def
             split: option.splits)
qed

theorem read_access_check_witness:
  "git_upload_pack (memManager privateRepo [''0xalice'']) demoMem
       (demoRequest None None (createPktLine (''want '' @ oidB) @ createFlushPkt))
     = ([GetRepositoryByName ''0xowner'' ''demo''],
        Inr \<lparr>status = 401, headers = [], body = ''Authentication required''\<rparr>)
   \<and> info_refs (memManager privateRepo [''0xalice'']) demoMem
       (demoRequest (Some ''git-upload-pack'') (Some ''0xbob'') [])
     = ([GetRepositoryByName ''0xowner'' ''demo'', HasReadAccess ''0x01'' ''0xbob''],
        Inr \<lparr>status = 403, headers = [], body = ''Read access denied''\<rparr>)
   \<and> (\<exists>out.
         info_refs (memManager privateRepo [''0xalice'']) demoMem
           (demoRequest (Some ''git-upload-pack'') (Some ''0xalice'') [])
         = ([GetRepositoryByName ''0xowner'' ''demo'', HasReadAccess ''0x01'' ''0xalice'',
             GetRefs ''0x01''], out))
   \<and> (\<exists>t out.
         git_upload_pack (memManager privateRepo [''0xalice'']) demoMem
           (demoRequest None (Some ''0xalice'') (createPktLine (''want '' @ oidB) @ createFlushPkt))
         = ([GetRepositoryByName ''0xowner'' ''demo'', HasReadAccess ''0x01'' ''0xalice''] @ t, out)
         \<and> HasReadAccess ''0x01'' ''0xalice'' \<notin> set t)
   \<and> git_upload_pack (memManager publicRepo []) demoMem
        (demoRequest None (Some ''0xbob'') (createPktLine (''want '' @ oidB) @ createFlushPkt))
     = git_upload_pack (memManager publicRepo []) demoMem
        (demoRequest None None (createPktLine (''want '' @ oidB) @ createFlushPkt))
   \<and> HasReadAccess ''0x01'' ''0xbob''
       \<notin> set (fst (git_upload_pack (memManager publicRepo []) demoMem
                (demoRequest None (Some ''0xbob'')
                   (createPktLine (''want '' @ oidB) @ createFlushPkt))))
   \<and> fst (info_refs (memManager publicRepo []) demoMem
            (demoRequest (Some ''git-upload-pack'') (Some ''0xbob'') []))
     = [GetRepositoryByName ''0xowner'' ''demo'', GetRefs ''0x01'']
   \<and> info_refs (memManager privateRepo [''0xalice'']) demoMem
       (demoRequest (Some ''git-receive-pack'') (Some ''0xbob'') [])
     = ([GetRepositoryByName ''0xowner'' ''demo'', HasWriteAccess ''0x01'' ''0xbob''],
        Inr \<lparr>status = 403, headers = [], body = ''Write access denied''\<rparr>)
   \<and> fst (info_refs writeOnlyManager demoMem
            (demoRequest (Some ''git-receive-pack'') (Some ''0xalice'') []))
     = [GetRepositoryByName ''0xowner'' ''demo'', HasWriteAccess ''0x01'' ''0xalice'',
        GetRefs ''0x01'']"
proof -
  let ?rm = "memManager privateRepo [''0xalice'']"
  let ?pm = "memManager publicRepo []"
  let ?want = "createPktLine (''want '' @ oidB) @ createFlushPkt"
  have r: "getRepositoryByName ?rm demoMem (param_owner (demoRequest s u b))
             (param_name (demoRequest s u b)) = Some privateRepo" for s u b
    by (simp add: memManager_def demoRequest_def)
  have rp: "getRepositoryByName ?pm demoMem (param_owner (demoRequest s u b))
             (param_name (demoRequest s u b)) = Some publicRepo" for s u b
    by (simp add: memManager_def demoRequest_def)
  have rw: "getRepositoryByName writeOnlyManager demoMem (param_owner (demoRequest s u b))
             (param_name (demoRequest s u b)) = Some privateRepo" for s u b
    by (simp add: writeOnlyManager_def memManager_def demoRequest_def)
  have v: "visibility privateRepo = 1" and vp: "visibility publicRepo \<noteq> 1"
    by (simp_all add: privateRepo_def publicRepo_def)
  have a: "hasReadAccess ?rm demoMem (repoId privateRepo) ''0xalice''"
    and b: "\<not> hasReadAccess ?rm demoMem (repoId privateRepo) ''0xbob''"
    and wb: "\<not> hasWriteAccess ?rm demoMem (repoId privateRepo) ''0xbob''"
    and wa: "hasWriteAccess writeOnlyManager demoMem (repoId privateRepo) ''0xalice''"
    by (simp_all add: writeOnlyManager_def memManager_def)
  note priv = read_access_check [OF r, THEN conjunct1, rule_format, OF v]
  note pub = read_access_check [OF rp, THEN conjunct2, THEN conjunct1, rule_format, OF vp]
  from priv [of None None ?want]
  have 1: "git_upload_pack ?rm demoMem (demoRequest None None ?want)
     = ([GetRepositoryByName ''0xowner'' ''demo''],
        Inr \<lparr>status = 401, headers = [], body = ''Authentication required''\<rparr>)"
    by (simp add: demoRequest_def)
  from priv [of "Some ''git-upload-pack''" "Some ''0xbob''" "[]"] b
  have 2: "info_refs ?rm demoMem (demoRequest (Some ''git-upload-pack'') (Some ''0xbob'') [])
     = ([GetRepositoryByName ''0xowner'' ''demo'', HasReadAccess ''0x01'' ''0xbob''],
        Inr \<lparr>status = 403, headers = [], body = ''Read access denied''\<rparr>)"
    by (simp add: demoRequest_def privateRepo_def)
  from priv [of "Some ''git-upload-pack''" "Some ''0xalice''" "[]"] a
  have 3: "\<exists>out. info_refs ?rm demoMem (demoRequest (Some ''git-upload-pack'') (Some ''0xalice'') [])
     = ([GetRepositoryByName ''0xowner'' ''demo'', HasReadAccess ''0x01'' ''0xalice'',
             GetRefs ''0x01''], out)"
    by (simp add: demoRequest_def privateRepo_def)
  define want where "want = ?want"
  from priv [of None "Some ''0xalice''" want] a
  have 4: "\<exists>t out.
         git_upload_pack ?rm demoMem (demoRequest None (Some ''0xalice'') want)
         = ([GetRepositoryByName ''0xowner'' ''demo'', HasReadAccess ''0x01'' ''0xalice''] @ t, out)
         \<and> HasReadAccess ''0x01'' ''0xalice'' \<notin> set t"
    by (simp add: demoRequest_def privateRepo_def) blast
  have upd: "(demoRequest None None want)\<lparr>header_x_jeju_address := Some ''0xbob''\<rparr>
               = demoRequest None (Some ''0xbob'') want"
    by (simp add: demoRequest_def)
  from pub [of None None want, THEN conjunct1, rule_format, of "Some ''0xbob''"]
  have 5: "git_upload_pack ?pm demoMem (demoRequest None (Some ''0xbob'') want)
             = git_upload_pack ?pm demoMem (demoRequest None None want)"
    unfolding upd .
  from pub [of None "Some ''0xbob''" want, THEN conjunct2, THEN conjunct1]
  have 6: "HasReadAccess ''0x01'' ''0xbob''
             \<notin> set (fst (git_upload_pack ?pm demoMem (demoRequest None (Some ''0xbob'') want)))"
    by (auto simp: demoRequest_def)
  from pub [of "Some ''git-upload-pack''" "Some ''0xbob''" "[]",
            THEN conjunct2, THEN conjunct2, THEN conjunct2]
  have 7: "fst (info_refs ?pm demoMem (demoRequest (Some ''git-upload-pack'') (Some ''0xbob'') []))
             = [GetRepositoryByName ''0xowner'' ''demo'', GetRefs ''0x01'']"
    by (simp add: demoRequest_def publicRepo_def)
  from read_access_check [OF r, THEN conjunct2, THEN conjunct2,
         of "Some ''git-receive-pack''" "Some ''0xbob''" "[]"] wb
  have 8: "info_refs ?rm demoMem (demoRequest (Some ''git-receive-pack'') (Some ''0xbob'') [])
     = ([GetRepositoryByName ''0xowner'' ''demo'', HasWriteAccess ''0x01'' ''0xbob''],
        Inr \<lparr>status = 403, headers = [], body = ''Write access denied''\<rparr>)"
    by (simp add: demoRequest_def privateRepo_def)
  from read_access_check [OF rw, THEN conjunct2, THEN conjunct2,
         of "Some ''git-receive-pack''" "Some ''0xalice''" "[]"] wa
  have 9: "fst (info_refs writeOnlyManager demoMem
                  (demoRequest (Some ''git-receive-pack'') (Some ''0xalice'') []))
     = [GetRepositoryByName ''0xowner'' ''demo'', HasWriteAccess ''0x01'' ''0xalice'',
        GetRefs ''0x01'']"
    by (simp add: demoRequest_def privateRepo_def)
  from 1 2 3 4 5 6 7 8 9 show ?thesis
    unfolding want_def by blast
qed

section \<open>Push: the split of the request body\<close>

lemma indexOfFrom_none:
  assumes "pat \<noteq> []" and "\<forall>i. take (length pat) (drop i buf) \<noteq> pat"
  shows "indexOfFrom pat buf k = - 1"
  using assms
proof (induction buf arbitrary: k)
  case Nil
  then show ?case by simp
next
  case (Cons x xs)
  from Cons.prems(2) have here: "take (length pat) (x # xs) \<noteq> pat"
    by (metis drop0)
  have "\<forall>i. take (length pat) (drop i xs) \<noteq> pat"
  proof
    fix i
    from Cons.prems(2) have "take (length pat) (drop (Suc i) (x # xs)) \<noteq> pat" by blast
    then show "take (length pat) (drop i xs) \<noteq> pat" by simp
  qed
  with Cons.IH [OF Cons.prems(1)] here show ?case by simp
qed

lemma indexOfFrom_first:
  assumes "pat \<noteq> []" and "take (length pat) (drop i buf) = pat"
    and "\<forall>j<i. take (length pat) (drop j buf) \<noteq> pat"
  shows "indexOfFrom pat buf k = int (k + i)"
  using assms
proof (induction buf arbitrary: k i)
  case Nil
  then show ?case by simp
next
  case (Cons x xs)
  show ?case
  proof (cases i)
    case 0
    with Cons.prems show ?thesis by simp
  next
    case (Suc i')
    with Cons.prems(3) have here: "take (length pat) (x # xs) \<noteq> pat"
      by (metis drop0 zero_less_Suc)
    from Cons.prems(2) Suc have there: "take (length pat) (drop i' xs) = pat" by simp
    have "\<forall>j<i'. take (length pat) (drop j xs) \<noteq> pat"
    proof (intro allI impI)
      fix j assume "j < i'"
      then have "Suc j < i" using Suc by simp
      with Cons.prems(3) have "take (length pat) (drop (Suc j) (x # xs)) \<noteq> pat" by blast
      then show "take (length pat) (drop j xs) \<noteq> pat" by simp
    qed
    from Cons.IH [OF Cons.prems(1) there this, of "Suc k"] here Suc show ?thesis by simp
  qed
qed

lemma subarray_to_end: "subarrayFrom buf (int i) = drop i buf"
  by (auto simp: subarrayFrom_def subarray_def Let_def min_def)

lemma subarray_prefix: "subarray buf 0 (int i) = take i buf"
  by (auto simp: subarray_def Let_def min_def)

lemma subarray_minus_one: "subarray buf 0 (- 1) = butlast buf"
  by (auto simp: subarray_def Let_def max_def butlast_conv_take nat_diff_distrib)

lemma subarrayFrom_minus_one: "subarrayFrom buf (- 1) = drop (length buf - 1) buf"
  by (cases "buf = []") (auto simp: subarrayFrom_def subarray_def Let_def max_def nat_diff_distrib)

lemma splitBody_found:
  assumes "take 4 (drop i buf) = ''PACK''" and "\<forall>j<i. take 4 (drop j buf) \<noteq> ''PACK''"
  shows "splitBody buf = (take i buf, drop i buf)"
proof -
  have len: "length ''PACK'' = 4" by simp
  from indexOfFrom_first [of "''PACK''" i buf 0, unfolded len] assms
  have "indexOfFrom ''PACK'' buf 0 = int (0 + i)" by simp
  then show ?thesis
    by (simp add: splitBody_def indexOf_def subarray_prefix subarray_to_end)
qed

lemma splitBody_not_found:
  assumes "\<forall>i. take 4 (drop i buf) \<noteq> ''PACK''"
  shows "splitBody buf = (butlast buf, drop (length buf - 1) buf)"
proof -
  have len: "length ''PACK'' = 4" by simp
  from indexOfFrom_none [of "''PACK''" buf 0, unfolded len] assms
  have "indexOfFrom ''PACK'' buf 0 = - 1" by simp
  then show ?thesis
    by (simp add: splitBody_def indexOf_def subarray_minus_one subarrayFrom_minus_one)
qed

section \<open>Push: the commit walk\<close>



section \<open>Push: the update loop\<close>

text \<open>The first iteration of the loop on a branch update: the call of \<open>pushBranch\<close> gets
  the number of commits that \<open>walkCommits\<close> returned; an exception of \<open>pushBranch\<close> ends
  the loop with that exception, before the remaining updates are looked at.\<close>

lemma replaceFirst_prefix:
  "startsWith s p \<Longrightarrow> p \<noteq> [] \<Longrightarrow> replaceFirst p [] s = drop (length p) s"
  by (cases s) (auto simp: startsWith_def)

lemma branchName_eq:
  "startsWith s ''refs/heads/'' \<Longrightarrow> replaceFirst ''refs/heads/'' [] s = drop 11 s"
  using replaceFirst_prefix [of s "''refs/heads/''"] by (simp add: eval_nat_numeral)

lemma applyUpdates_branch:
  assumes "startsWith (refName u) ''refs/heads/''"
  shows "applyUpdates rm user rid name (u # us) st =
     (let branchName = drop 11 (refName u);
          commits = walkCommits (getCommit rm st rid) (newOid u) 100;
          expected = (if oldOid u = ZERO_OID then None else Some (oldOid u));
          call = PushBranch rid branchName (newOid u) expected (length commits) user
      in case pushBranch rm st rid branchName (newOid u) expected (length commits) user of
           (st1, Some e) \<Rightarrow> ([call], st1, Inl e)
         | (st1, None) \<Rightarrow>
             (let track = TrackGitContribution user rid name branchName (length commits)
                            (pushMessage commits)
              in case applyUpdates rm user rid name us st1 of
                   (t, st', Inl e) \<Rightarrow> (call # track # t, st', Inl e)
                 | (t, st', Inr results) \<Rightarrow>
                     (call # track # t, st',
                      Inr (\<lparr>ref = refName u, success = True, error = None\<rparr> # results))))"
  using assms by (simp add: branchName_eq)

lemma applyUpdates_push_failure:
  assumes "startsWith (refName u) ''refs/heads/''"
    and "pushBranch rm st rid (drop 11 (refName u)) (newOid u)
           (if oldOid u = ZERO_OID then None else Some (oldOid u))
           (length (walkCommits (getCommit rm st rid) (newOid u) 100)) user = (st1, Some e)"
  shows "applyUpdates rm user rid name (u # us) st =
           ([PushBranch rid (drop 11 (refName u)) (newOid u)
               (if oldOid u = ZERO_OID then None else Some (oldOid u))
               (length (walkCommits (getCommit rm st rid) (newOid u) 100)) user],
            st1, Inl e)"
  using assms(2) by (simp only: applyUpdates_branch [OF assms(1)] Let_def) simp

lemma applyUpdates_trace_branch:
  assumes "startsWith (refName u) ''refs/heads/''"
  shows "fst (applyUpdates rm user rid name (u # us) st) =
     (let n = length (walkCommits (getCommit rm st rid) (newOid u) 100);
          call = PushBranch rid (drop 11 (refName u)) (newOid u)
                   (if oldOid u = ZERO_OID then None else Some (oldOid u)) n user
      in case pushBranch rm st rid (drop 11 (refName u)) (newOid u)
                (if oldOid u = ZERO_OID then None else Some (oldOid u)) n user of
           (st1, Some e) \<Rightarrow> [call]
         | (st1, None) \<Rightarrow>
             call # TrackGitContribution user rid name (drop 11 (refName u)) n
                      (pushMessage (walkCommits (getCommit rm st rid) (newOid u) 100))
             # fst (applyUpdates rm user rid name us st1))"
  by (simp only: applyUpdates_branch [OF assms] Let_def)
     (simp split: prod.splits option.splits sum.splits)

lemma applyUpdates_trace_other:
  assumes "\<not> startsWith (refName u) ''refs/heads/''"
  shows "fst (applyUpdates rm user rid name (u # us) st)
           = fst (applyUpdates rm user rid name us st)"
  using assms by (simp split: prod.splits sum.splits)


lemma applyUpdates_events:
  "e \<in> set (fst (applyUpdates rm user rid name us st)) \<Longrightarrow>
     (\<exists>r b new ex n u. e = PushBranch r b new ex n u)
     \<or> (\<exists>u r nm b n m. e = TrackGitContribution u r nm b n m)"
proof (induction us arbitrary: st)
  case Nil
  then show ?case by simp
next
  case (Cons a us)
  show ?case
  proof (cases "startsWith (refName a) ''refs/heads/''")
    case False
    from Cons.prems Cons.IH [of st] show ?thesis
      by (simp only: applyUpdates_trace_other [OF False])
  next
    case True
    with Cons.prems Cons.IH show ?thesis
      by (simp only: applyUpdates_trace_branch [OF True] Let_def)
         (auto split: prod.splits option.splits)
  qed
qed

text \<open>When the loop ends without exception there is one result per update, and the
  result of every update under \<^verbatim>\<open>refs/heads/\<close> is a success: the loop has no way to
  record a failed \<open>pushBranch\<close>.\<close>

lemma applyUpdates_results:
  assumes "applyUpdates rm user rid name us st = (t, st', Inr results)"
  shows "map ref results = map refName us
         \<and> map success results = map (\<lambda>u. startsWith (refName u) ''refs/heads/'') us"
  using assms
proof (induction us arbitrary: st t st' results)
  case Nil
  then show ?case by simp
next
  case (Cons a us)
  show ?case
  proof (cases "startsWith (refName a) ''refs/heads/''")
    case False
    with Cons.prems obtain rs where
      "applyUpdates rm user rid name us st = (t, st', Inr rs)"
      "results = \<lparr>ref = refName a, success = False,
                   error = Some ''Only branch updates supported''\<rparr> # rs"
      by (auto split: prod.splits sum.splits)
    with Cons.IH False show ?thesis by auto
  next
    case True
    with Cons.prems obtain st1 t1 rs where
      "applyUpdates rm user rid name us st1 = (t1, st', Inr rs)"
      "results = \<lparr>ref = refName a, success = True, error = None\<rparr> # rs"
      by (simp only: applyUpdates_branch [OF True] Let_def)
         (auto split: prod.splits sum.splits option.splits)
    with Cons.IH True show ?thesis by auto
  qed
qed

section \<open>Push: the handler\<close>

lemma receive_pack_serve_cases:
  "receive_pack_serve rm st repo name user buf =
     (case parsePktLines (fst (splitBody buf)) of
        Inl e \<Rightarrow> ([], st, Inl e)
      | Inr lines \<Rightarrow>
          (case extractPackfile rm st (repoId repo) (snd (splitBody buf)) of
             (st1, Some e) \<Rightarrow> ([ExtractPackfile (repoId repo) (snd (splitBody buf))], st1, Inl e)
           | (st1, None) \<Rightarrow>
               (case applyUpdates rm user (repoId repo) name (parseUpdates lines []) st1 of
                  (t2, st2, r) \<Rightarrow>
                    (ExtractPackfile (repoId repo) (snd (splitBody buf)) # t2, st2,
                     map_sum id
                       (\<lambda>results.
                          new_Response (createPktLines rm (''unpack ok'' # map statusLine results))
                            [(''Content-Type'', ''application/x-git-receive-pack-result''),
                             (''Cache-Control'', ''no-cache'')])
                       r))))"
  by (simp add: receive_pack_serve_def Let_def split: prod.splits sum.splits option.splits)

text \<open>The trace of a request: nothing, the repository lookup, the two checks, or the two
  checks followed by the trace of the part after them.\<close>

lemma git_receive_pack_trace:
  "fst (git_receive_pack rm st req) = []
   \<or> fst (git_receive_pack rm st req)
        = [GetRepositoryByName (param_owner req) (param_name req)]
   \<or> (\<exists>user repo.
         header_x_jeju_address req = Some user \<and> user \<noteq> []
         \<and> getRepositoryByName rm st (param_owner req) (param_name req) = Some repo
         \<and> ((\<not> hasWriteAccess rm st (repoId repo) user
              \<and> fst (git_receive_pack rm st req)
                  = [GetRepositoryByName (param_owner req) (param_name req),
                     HasWriteAccess (repoId repo) user])
             \<or> (hasWriteAccess rm st (repoId repo) user
                 \<and> git_receive_pack rm st req
                     = (case receive_pack_serve rm st repo (param_name req) user (arrayBuffer req) of
                          (t, st', out) \<Rightarrow>
                            ([GetRepositoryByName (param_owner req) (param_name req),
                              HasWriteAccess (repoId repo) user] @ t, st', out)))))"
  by (auto simp: git_receive_pack_def Let_def split: option.splits prod.splits)

text \<open>A call of \<open>pushBranch\<close> or of the contribution tracker in the trace belongs to the
  update loop, which was entered after the commands had been parsed from the first part of
  the split body and the pack in its second part had been extracted without error.\<close>

lemma receive_pack_update_event:
  assumes "ev \<in> set (fst (git_receive_pack rm st req))"
    and "(\<exists>r b new ex n u. ev = PushBranch r b new ex n u)
         \<or> (\<exists>u r nm b n m. ev = TrackGitContribution u r nm b n m)"
  shows "\<exists>user repo lines st1.
           header_x_jeju_address req = Some user \<and> user \<noteq> []
           \<and> getRepositoryByName rm st (param_owner req) (param_name req) = Some repo
           \<and> hasWriteAccess rm st (repoId repo) user
           \<and> parsePktLines (fst (splitBody (arrayBuffer req))) = Inr lines
           \<and> extractPackfile rm st (repoId repo) (snd (splitBody (arrayBuffer req))) = (st1, None)
           \<and> fst (git_receive_pack rm st req)
               = [GetRepositoryByName (param_owner req) (param_name req),
                  HasWriteAccess (repoId repo) user,
                  ExtractPackfile (repoId repo) (snd (splitBody (arrayBuffer req)))]
                 @ fst (applyUpdates rm user (repoId repo) (param_name req)
                          (parseUpdates lines []) st1)
           \<and> ev \<in> set (fst (applyUpdates rm user (repoId repo) (param_name req)
                               (parseUpdates lines []) st1))"
proof -
  from git_receive_pack_trace [of rm st req] assms obtain user repo where
    u: "header_x_jeju_address req = Some user" "user \<noteq> []"
    and r: "getRepositoryByName rm st (param_owner req) (param_name req) = Some repo"
    and w: "hasWriteAccess rm st (repoId repo) user"
    and g: "git_receive_pack rm st req
              = (case receive_pack_serve rm st repo (param_name req) user (arrayBuffer req) of
                   (t, st', out) \<Rightarrow>
                     ([GetRepositoryByName (param_owner req) (param_name req),
                       HasWriteAccess (repoId repo) user] @ t, st', out))"
    by auto
  from g assms have e: "ev \<in> set (fst (receive_pack_serve rm st repo (param_name req) user (arrayBuffer req)))"
    by (auto split: prod.splits)
  then obtain lines where p: "parsePktLines (fst (splitBody (arrayBuffer req))) = Inr lines"
    by (cases "parsePktLines (fst (splitBody (arrayBuffer req)))")
       (auto simp: receive_pack_serve_cases)
  obtain st1 res where x: "extractPackfile rm st (repoId repo) (snd (splitBody (arrayBuffer req))) = (st1, res)"
    by (cases "extractPackfile rm st (repoId repo) (snd (splitBody (arrayBuffer req)))") auto
  from e p x assms(2) have n: "res = None"
    by (cases res) (auto simp: receive_pack_serve_cases)
  from e p x n assms(2) have
    "ev \<in> set (fst (applyUpdates rm user (repoId repo) (param_name req) (parseUpdates lines []) st1))"
    by (auto simp: receive_pack_serve_cases split: prod.splits)
  moreover from g p x n have "fst (git_receive_pack rm st req)
               = [GetRepositoryByName (param_owner req) (param_name req),
                  HasWriteAccess (repoId repo) user,
                  ExtractPackfile (repoId repo) (snd (splitBody (arrayBuffer req)))]
                 @ fst (applyUpdates rm user (repoId repo) (param_name req)
                          (parseUpdates lines []) st1)"
    by (auto simp: receive_pack_serve_cases split: prod.splits)
  ultimately show ?thesis using u r w p x n by blast
qed

lemma receive_pack_extract_event:
  assumes "ExtractPackfile rid d \<in> set (fst (git_receive_pack rm st req))"
  shows "d = snd (splitBody (arrayBuffer req))
         \<and> (\<exists>lines. parsePktLines (fst (splitBody (arrayBuffer req))) = Inr lines)"
proof -
  from git_receive_pack_trace [of rm st req] assms obtain user repo where
    g: "git_receive_pack rm st req
              = (case receive_pack_serve rm st repo (param_name req) user (arrayBuffer req) of
                   (t, st', out) \<Rightarrow>
                     ([GetRepositoryByName (param_owner req) (param_name req),
                       HasWriteAccess (repoId repo) user] @ t, st', out))"
    by auto
  from g assms have e: "ExtractPackfile rid d \<in> set (fst (receive_pack_serve rm st repo (param_name req) user (arrayBuffer req)))"
    by (auto split: prod.splits)
  then obtain lines where p: "parsePktLines (fst (splitBody (arrayBuffer req))) = Inr lines"
    by (cases "parsePktLines (fst (splitBody (arrayBuffer req)))")
       (auto simp: receive_pack_serve_cases)
  have "ExtractPackfile rid d \<notin> set t"
    if "applyUpdates rm user (repoId repo) (param_name req) us s = (t, s', r)" for us s t s' r
    using that
      applyUpdates_events [of "ExtractPackfile rid d" rm user "repoId repo" "param_name req" us s]
    by auto
  with e p have "d = snd (splitBody (arrayBuffer req))"
    by (auto simp: receive_pack_serve_cases split: prod.splits option.splits)
  with p show ?thesis by blast
qed

section \<open>Push: evaluation on concrete requests\<close>

lemmas push_eval =
  git_receive_pack_def receive_pack_serve_def splitBody_def indexOf_def subarray_def
  subarrayFrom_def matchUpdate_def lowerHex_def statusLine_def pushMessage_def ZERO_OID_def
  pushCreateAndTag_def pushStaleAndCreate_def pushDeleteOnly_def pushCorruptPack_def
  pushWithCommit_def

lemma push_create_and_tag:
  "git_receive_pack (memManager privateRepo [''0xalice'']) demoMem
     (demoRequest None (Some ''0xalice'') pushCreateAndTag)
   = ([GetRepositoryByName ''0xowner'' ''demo'', HasWriteAccess ''0x01'' ''0xalice'',
       ExtractPackfile ''0x01'' ''PACK........'',
       PushBranch ''0x01'' ''feature'' oidB None 2 ''0xalice'',
       TrackGitContribution ''0xalice'' ''0x01'' ''demo'' ''feature'' 2 ''second commit''],
      demoMem\<lparr>mem_branches := (''feature'', oidB) # mem_branches demoMem\<rparr>,
      Inr \<lparr>status = 200,
           headers = [(''Content-Type'', ''application/x-git-receive-pack-result''),
                      (''Cache-Control'', ''no-cache'')],
           body = ''000dunpack ok'' @ ''0019ok refs/heads/feature''
                  @ ''0031ng refs/tags/v1 Only branch updates supported'' @ ''0000''\<rparr>)"
  by (simp add: push_eval demo_eval)


lemma push_corrupt_pack:
  "git_receive_pack (memManager privateRepo [''0xalice'']) demoMem
     (demoRequest None (Some ''0xalice'') pushCorruptPack)
   = ([GetRepositoryByName ''0xowner'' ''demo'', HasWriteAccess ''0x01'' ''0xalice'',
       ExtractPackfile ''0x01'' ''PACK..''],
      demoMem, Inl CorruptPackError)"
  by (simp add: push_eval demo_eval)

lemma no_PACK_without_P:
  assumes "CHR ''P'' \<notin> set buf"
  shows "\<forall>i. take 4 (drop i buf) \<noteq> ''PACK''"
proof
  fix i
  show "take 4 (drop i buf) \<noteq> ''PACK''"
  proof
    assume a: "take 4 (drop i buf) = ''PACK''"
    then have "CHR ''P'' \<in> set (take 4 (drop i buf))" by simp
    then have "CHR ''P'' \<in> set buf"
      by (meson in_set_dropD in_set_takeD)
    with assms show False by simp
  qed
qed

text \<open>The handler on an authorised request, by the outcome of the parse and of the
  extraction.\<close>

lemma git_receive_pack_served:
  assumes "header_x_jeju_address req = Some user" and "user \<noteq> []"
    and "getRepositoryByName rm st (param_owner req) (param_name req) = Some repo"
    and "hasWriteAccess rm st (repoId repo) user"
  shows "git_receive_pack rm st req =
     (case parsePktLines (fst (splitBody (arrayBuffer req))) of
        Inl e \<Rightarrow>
          ([GetRepositoryByName (param_owner req) (param_name req),
            HasWriteAccess (repoId repo) user], st, Inl e)
      | Inr lines \<Rightarrow>
          (case extractPackfile rm st (repoId repo) (snd (splitBody (arrayBuffer req))) of
             (st1, Some e) \<Rightarrow>
               ([GetRepositoryByName (param_owner req) (param_name req),
                 HasWriteAccess (repoId repo) user,
                 ExtractPackfile (repoId repo) (snd (splitBody (arrayBuffer req)))], st1, Inl e)
           | (st1, None) \<Rightarrow>
               (case applyUpdates rm user (repoId repo) (param_name req)
                       (parseUpdates lines []) st1 of
                  (t2, st2, r) \<Rightarrow>
                    ([GetRepositoryByName (param_owner req) (param_name req),
                      HasWriteAccess (repoId repo) user,
                      ExtractPackfile (repoId repo) (snd (splitBody (arrayBuffer req)))] @ t2,
                     st2,
                     map_sum id
                       (\<lambda>results.
                          new_Response (createPktLines rm (''unpack ok'' # map statusLine results))
                            [(''Content-Type'', ''application/x-git-receive-pack-result''),
                             (''Cache-Control'', ''no-cache'')])
                       r))))"
  using assms
  by (simp add: git_receive_pack_def Let_def receive_pack_serve_cases
        split: sum.splits prod.splits option.splits)

text \<open>The push that carries a commit: its split and its commands.\<close>

lemma split_push_with_commit:
  "splitBody pushWithCommit =
     (createPktLine (oidB @ '' '' @ oidC @ '' refs/heads/main'' @ [NUL] @ ''report-status'')
      @ createFlushPkt,
      ''PACK........'' @ oidC @ oidB)"
  by (simp add: splitBody_def indexOf_def subarray_def subarrayFrom_def
        pushWithCommit_def pkt_eval oidB_def oidC_def NUL_def)

lemma parse_push_with_commit:
  "parsePktLines
     (createPktLine (oidB @ '' '' @ oidC @ '' refs/heads/main'' @ [NUL] @ ''report-status'')
      @ createFlushPkt)
   = Inr [oidB @ '' '' @ oidC @ '' refs/heads/main'' @ [NUL] @ ''report-status'']"
  by (simp add: pkt_eval parsePktLines.simps pktLength_def hexVal_def oidB_def oidC_def NUL_def)

section \<open>Push: extraction before update, the split without a pack, the commit count\<close>

text \<open>
  Claim C2: in the receive-pack handler the body is split at the first occurrence of the
  bytes \<^verbatim>\<open>PACK\<close>: the commands are parsed from what precedes it and the pack data start
  with it. When \<open>extractPackfile\<close> returns without error, the ref updates are applied to
  the state that the extraction left, the one that holds the objects of the pack: the
  handler's trace, final state and answer are those of the update loop started in that
  state, after the lookup, the write check and the extraction. Every call of \<open>pushBranch\<close>
  in the trace of a request is a call of that loop and comes after the call of
  \<open>extractPackfile\<close> on the pack data, which returned without error. If
  \<open>extractPackfile\<close> fails, no \<open>pushBranch\<close> is called at all: the request ends with
  that error in the state the failed extraction left, so no ref is moved to objects of a
  corrupt pack.
\<close>

theorem receive_pack_extract_before_update:
  "(\<forall>i. take 4 (drop i (arrayBuffer req)) = ''PACK''
         \<and> (\<forall>j<i. take 4 (drop j (arrayBuffer req)) \<noteq> ''PACK'')
       \<longrightarrow> splitBody (arrayBuffer req) = (take i (arrayBuffer req), drop i (arrayBuffer req)))
   \<and> (\<forall>user repo lines st1.
         header_x_jeju_address req = Some user \<and> user \<noteq> []
         \<and> getRepositoryByName rm st (param_owner req) (param_name req) = Some repo
         \<and> hasWriteAccess rm st (repoId repo) user
         \<and> parsePktLines (fst (splitBody (arrayBuffer req))) = Inr lines
         \<and> extractPackfile rm st (repoId repo) (snd (splitBody (arrayBuffer req))) = (st1, None)
       \<longrightarrow> git_receive_pack rm st req =
             (case applyUpdates rm user (repoId repo) (param_name req)
                     (parseUpdates lines []) st1 of
                (t2, st2, r) \<Rightarrow>
                  ([GetRepositoryByName (param_owner req) (param_name req),
                    HasWriteAccess (repoId repo) user,
                    ExtractPackfile (repoId repo) (snd (splitBody (arrayBuffer req)))] @ t2,
                   st2,
                   map_sum id
                     (\<lambda>results.
                        new_Response (createPktLines rm (''unpack ok'' # map statusLine results))
                          [(''Content-Type'', ''application/x-git-receive-pack-result''),
                           (''Cache-Control'', ''no-cache'')])
                     r)))
   \<and> (\<forall>r b new ex n u.
         PushBranch r b new ex n u \<in> set (fst (git_receive_pack rm st req))
       \<longrightarrow> (\<exists>user repo lines st1.
              getRepositoryByName rm st (param_owner req) (param_name req) = Some repo
              \<and> parsePktLines (fst (splitBody (arrayBuffer req))) = Inr lines
              \<and> extractPackfile rm st (repoId repo) (snd (splitBody (arrayBuffer req)))
                  = (st1, None)
              \<and> fst (git_receive_pack rm st req)
                  = [GetRepositoryByName (param_owner req) (param_name req),
                     HasWriteAccess (repoId repo) user,
                     ExtractPackfile (repoId repo) (snd (splitBody (arrayBuffer req)))]
                    @ fst (applyUpdates rm user (repoId repo) (param_name req)
                             (parseUpdates lines []) st1)
              \<and> PushBranch r b new ex n u
                  \<in> set (fst (applyUpdates rm user (repoId repo) (param_name req)
                                 (parseUpdates lines []) st1))))
   \<and> (\<forall>repo st1 e.
         getRepositoryByName rm st (param_owner req) (param_name req) = Some repo
         \<and> extractPackfile rm st (repoId repo) (snd (splitBody (arrayBuffer req))) = (st1, Some e)
       \<longrightarrow> (\<forall>r b new ex n u.
              PushBranch r b new ex n u \<notin> set (fst (git_receive_pack rm st req)))
           \<and> (\<forall>rid d.
                ExtractPackfile rid d \<in> set (fst (git_receive_pack rm st req))
              \<longrightarrow> (\<exists>user.
                     git_receive_pack rm st req
                       = ([GetRepositoryByName (param_owner req) (param_name req),
                           HasWriteAccess (repoId repo) user,
                           ExtractPackfile (repoId repo) (snd (splitBody (arrayBuffer req)))],
                          st1, Inl e))))"
proof (intro conjI allI impI)
  fix i
  assume "take 4 (drop i (arrayBuffer req)) = ''PACK''
            \<and> (\<forall>j<i. take 4 (drop j (arrayBuffer req)) \<noteq> ''PACK'')"
  then show "splitBody (arrayBuffer req) = (take i (arrayBuffer req), drop i (arrayBuffer req))"
    by (simp add: splitBody_found)
next
  fix user repo lines st1
  assume a: "header_x_jeju_address req = Some user \<and> user \<noteq> []
         \<and> getRepositoryByName rm st (param_owner req) (param_name req) = Some repo
         \<and> hasWriteAccess rm st (repoId repo) user
         \<and> parsePktLines (fst (splitBody (arrayBuffer req))) = Inr lines
         \<and> extractPackfile rm st (repoId repo) (snd (splitBody (arrayBuffer req))) = (st1, None)"
  then have "git_receive_pack rm st req =
     (case parsePktLines (fst (splitBody (arrayBuffer req))) of
        Inl e \<Rightarrow>
          ([GetRepositoryByName (param_owner req) (param_name req),
            HasWriteAccess (repoId repo) user], st, Inl e)
      | Inr lines \<Rightarrow>
          (case extractPackfile rm st (repoId repo) (snd (splitBody (arrayBuffer req))) of
             (st1, Some e) \<Rightarrow>
               ([GetRepositoryByName (param_owner req) (param_name req),
                 HasWriteAccess (repoId repo) user,
                 ExtractPackfile (repoId repo) (snd (splitBody (arrayBuffer req)))], st1, Inl e)
           | (st1, None) \<Rightarrow>
               (case applyUpdates rm user (repoId repo) (param_name req)
                       (parseUpdates lines []) st1 of
                  (t2, st2, r) \<Rightarrow>
                    ([GetRepositoryByName (param_owner req) (param_name req),
                      HasWriteAccess (repoId repo) user,
                      ExtractPackfile (repoId repo) (snd (splitBody (arrayBuffer req)))] @ t2,
                     st2,
                     map_sum id
                       (\<lambda>results.
                          new_Response (createPktLines rm (''unpack ok'' # map statusLine results))
                            [(''Content-Type'', ''application/x-git-receive-pack-result''),
                             (''Cache-Control'', ''no-cache'')])
                       r))))"
    by (intro git_receive_pack_served) simp_all
  with a show "git_receive_pack rm st req =
             (case applyUpdates rm user (repoId repo) (param_name req)
                     (parseUpdates lines []) st1 of
                (t2, st2, r) \<Rightarrow>
                  ([GetRepositoryByName (param_owner req) (param_name req),
                    HasWriteAccess (repoId repo) user,
                    ExtractPackfile (repoId repo) (snd (splitBody (arrayBuffer req)))] @ t2,
                   st2,
                   map_sum id
                     (\<lambda>results.
                        new_Response (createPktLines rm (''unpack ok'' # map statusLine results))
                          [(''Content-Type'', ''application/x-git-receive-pack-result''),
                           (''Cache-Control'', ''no-cache'')])
                     r))"
    by simp
next
  fix r b new ex n u
  assume "PushBranch r b new ex n u \<in> set (fst (git_receive_pack rm st req))"
  from receive_pack_update_event [OF this]
  show "\<exists>user repo lines st1.
              getRepositoryByName rm st (param_owner req) (param_name req) = Some repo
              \<and> parsePktLines (fst (splitBody (arrayBuffer req))) = Inr lines
              \<and> extractPackfile rm st (repoId repo) (snd (splitBody (arrayBuffer req)))
                  = (st1, None)
              \<and> fst (git_receive_pack rm st req)
                  = [GetRepositoryByName (param_owner req) (param_name req),
                     HasWriteAccess (repoId repo) user,
                     ExtractPackfile (repoId repo) (snd (splitBody (arrayBuffer req)))]
                    @ fst (applyUpdates rm user (repoId repo) (param_name req)
                             (parseUpdates lines []) st1)
              \<and> PushBranch r b new ex n u
                  \<in> set (fst (applyUpdates rm user (repoId repo) (param_name req)
                                 (parseUpdates lines []) st1))"
    by blast
next
  fix repo st1 e r b new ex n u
  assume a: "getRepositoryByName rm st (param_owner req) (param_name req) = Some repo
         \<and> extractPackfile rm st (repoId repo) (snd (splitBody (arrayBuffer req))) = (st1, Some e)"
  show "PushBranch r b new ex n u \<notin> set (fst (git_receive_pack rm st req))"
  proof
    assume "PushBranch r b new ex n u \<in> set (fst (git_receive_pack rm st req))"
    from receive_pack_update_event [OF this] a show False by auto
  qed
next
  fix repo st1 e rid d
  assume a: "getRepositoryByName rm st (param_owner req) (param_name req) = Some repo
         \<and> extractPackfile rm st (repoId repo) (snd (splitBody (arrayBuffer req))) = (st1, Some e)"
    and x: "ExtractPackfile rid d \<in> set (fst (git_receive_pack rm st req))"
  from receive_pack_extract_event [OF x] obtain lines where
    p: "parsePktLines (fst (splitBody (arrayBuffer req))) = Inr lines"
    by blast
  from git_receive_pack_trace [of rm st req] x a obtain user where
    g: "git_receive_pack rm st req
              = (case receive_pack_serve rm st repo (param_name req) user (arrayBuffer req) of
                   (t, st', out) \<Rightarrow>
                     ([GetRepositoryByName (param_owner req) (param_name req),
                       HasWriteAccess (repoId repo) user] @ t, st', out))"
    by auto
  from g a p have "git_receive_pack rm st req
                       = ([GetRepositoryByName (param_owner req) (param_name req),
                           HasWriteAccess (repoId repo) user,
                           ExtractPackfile (repoId repo) (snd (splitBody (arrayBuffer req)))],
                          st1, Inl e)"
    by (simp add: receive_pack_serve_cases)
  then show "\<exists>user.
                     git_receive_pack rm st req
                       = ([GetRepositoryByName (param_owner req) (param_name req),
                           HasWriteAccess (repoId repo) user,
                           ExtractPackfile (repoId repo) (snd (splitBody (arrayBuffer req)))],
                          st1, Inl e)"
    by blast
qed

theorem receive_pack_extract_before_update_witness:
  "splitBody ''0000PACK........'' = (''0000'', ''PACK........'')
   \<and> fst (git_receive_pack (memManager privateRepo [''0xalice'']) demoMem
            (demoRequest None (Some ''0xalice'') pushWithCommit))
       = [GetRepositoryByName ''0xowner'' ''demo'', HasWriteAccess ''0x01'' ''0xalice'',
          ExtractPackfile ''0x01'' (''PACK........'' @ oidC @ oidB),
          PushBranch ''0x01'' ''main'' oidC (Some oidB) 3 ''0xalice'',
          TrackGitContribution ''0xalice'' ''0x01'' ''demo'' ''main'' 3 ''pushed commit'']
   \<and> walkCommits (getCommit (memManager privateRepo [''0xalice'']) demoMem ''0x01'') oidC 100 = []
   \<and> (\<exists>t2.
         fst (git_receive_pack (memManager privateRepo [''0xalice'']) demoMem
                (demoRequest None (Some ''0xalice'') pushCreateAndTag))
           = [GetRepositoryByName ''0xowner'' ''demo'', HasWriteAccess ''0x01'' ''0xalice'',
              ExtractPackfile ''0x01'' ''PACK........''] @ t2
         \<and> PushBranch ''0x01'' ''feature'' oidB None 2 ''0xalice'' \<in> set t2)
   \<and> PushBranch ''0x01'' ''feature'' oidB None 2 ''0xalice''
       \<notin> set (fst (git_receive_pack (memManager privateRepo [''0xalice'']) demoMem
                     (demoRequest None (Some ''0xalice'') pushCorruptPack)))
   \<and> git_receive_pack (memManager privateRepo [''0xalice'']) demoMem
         (demoRequest None (Some ''0xalice'') pushCorruptPack)
       = ([GetRepositoryByName ''0xowner'' ''demo'', HasWriteAccess ''0x01'' ''0xalice'',
           ExtractPackfile ''0x01'' ''PACK..''],
          demoMem, Inl CorruptPackError)"
proof -
  let ?rm = "memManager privateRepo [''0xalice'']"
  let ?req0 = "demoRequest None (Some ''0xalice'') ''0000PACK........''"
  let ?req1 = "demoRequest None (Some ''0xalice'') pushCreateAndTag"
  let ?req2 = "demoRequest None (Some ''0xalice'') pushCorruptPack"
  let ?req3 = "demoRequest None (Some ''0xalice'') pushWithCommit"
  note t0 = receive_pack_extract_before_update [of ?req0 ?rm demoMem]
  note t1 = receive_pack_extract_before_update [of ?req1 ?rm demoMem]
  note t2 = receive_pack_extract_before_update [of ?req2 ?rm demoMem]
  note t3 = receive_pack_extract_before_update [of ?req3 ?rm demoMem]
  \<comment> \<open>The split at the first occurrence.\<close>
  have b0: "arrayBuffer ?req0 = ''0000PACK........''" by (simp add: demoRequest_def)
  have "take 4 (drop 4 ''0000PACK........'') = ''PACK''
          \<and> (\<forall>j<4. take 4 (drop j ''0000PACK........'') \<noteq> ''PACK'')"
    by (simp add: eval_nat_numeral less_Suc_eq)
  with t0 [THEN conjunct1, rule_format, of 4]
  have 1: "splitBody ''0000PACK........'' = (''0000'', ''PACK........'')"
    unfolding b0 by simp
  \<comment> \<open>The updates run on the store the extraction left: the pushed commit is found.\<close>
  let ?cmd = "oidB @ '' '' @ oidC @ '' refs/heads/main'' @ [NUL] @ ''report-status''"
  let ?st1 = "demoMem\<lparr>mem_commits := mem_commits demoMem
                @ [(oidC, \<lparr>commit_oid = oidC, commit_tree = [], commit_parents = [oidB],
                           commit_message = ''pushed commit''\<rparr>)]\<rparr>"
  have b3: "arrayBuffer ?req3 = pushWithCommit" by (simp add: demoRequest_def)
  have x3: "extractPackfile ?rm demoMem (repoId privateRepo) (''PACK........'' @ oidC @ oidB)
              = (?st1, None)"
    by (simp add: memManager_def startsWith_def unpackCommits.simps oidB_def oidC_def
          ZERO_OID_def)
  have a3: "header_x_jeju_address ?req3 = Some ''0xalice'' \<and> ''0xalice'' \<noteq> []
         \<and> getRepositoryByName ?rm demoMem (param_owner ?req3) (param_name ?req3)
             = Some privateRepo
         \<and> hasWriteAccess ?rm demoMem (repoId privateRepo) ''0xalice''
         \<and> parsePktLines (fst (splitBody (arrayBuffer ?req3))) = Inr [?cmd]
         \<and> extractPackfile ?rm demoMem (repoId privateRepo) (snd (splitBody (arrayBuffer ?req3)))
             = (?st1, None)"
    unfolding b3 split_push_with_commit fst_conv snd_conv parse_push_with_commit x3
    by (simp add: memManager_def demoRequest_def)
  have u3: "fst (applyUpdates ?rm ''0xalice'' ''0x01'' ''demo'' (parseUpdates [?cmd] []) ?st1)
              = [PushBranch ''0x01'' ''main'' oidC (Some oidB) 3 ''0xalice'',
                 TrackGitContribution ''0xalice'' ''0x01'' ''demo'' ''main'' 3 ''pushed commit'']"
    by (simp add: matchUpdate_def lowerHex_def pushMessage_def ZERO_OID_def demo_eval)
  have u3': "fst (applyUpdates ?rm ''0xalice'' (repoId privateRepo) (param_name ?req3)
                    (parseUpdates [?cmd] []) ?st1)
              = [PushBranch ''0x01'' ''main'' oidC (Some oidB) 3 ''0xalice'',
                 TrackGitContribution ''0xalice'' ''0x01'' ''demo'' ''main'' 3 ''pushed commit'']"
    using u3 by (simp only: privateRepo_def demoRequest_def repository.simps request.simps)
  from t3 [THEN conjunct2, THEN conjunct1, rule_format, OF a3]
  have "fst (git_receive_pack ?rm demoMem ?req3)
          = [GetRepositoryByName (param_owner ?req3) (param_name ?req3),
             HasWriteAccess (repoId privateRepo) ''0xalice'',
             ExtractPackfile (repoId privateRepo) (snd (splitBody (arrayBuffer ?req3)))]
            @ fst (applyUpdates ?rm ''0xalice'' (repoId privateRepo) (param_name ?req3)
                     (parseUpdates [?cmd] []) ?st1)"
    by (simp only: case_prod_beta fst_conv)
  then have 2: "fst (git_receive_pack ?rm demoMem ?req3)
       = [GetRepositoryByName ''0xowner'' ''demo'', HasWriteAccess ''0x01'' ''0xalice'',
          ExtractPackfile ''0x01'' (''PACK........'' @ oidC @ oidB),
          PushBranch ''0x01'' ''main'' oidC (Some oidB) 3 ''0xalice'',
          TrackGitContribution ''0xalice'' ''0x01'' ''demo'' ''main'' 3 ''pushed commit'']"
    unfolding u3' b3 split_push_with_commit snd_conv
    by (simp add: demoRequest_def privateRepo_def)
  have 3: "walkCommits (getCommit ?rm demoMem ''0x01'') oidC 100 = []"
    by (simp add: demo_eval)
  \<comment> \<open>A successful push: the extraction precedes the update.\<close>
  have sp1: "snd (splitBody (arrayBuffer ?req1)) = ''PACK........''"
    by (simp add: demoRequest_def splitBody_def indexOf_def subarray_def subarrayFrom_def
          pushCreateAndTag_def pkt_eval oidB_def oidC_def ZERO_OID_def NUL_def)
  have ev: "PushBranch ''0x01'' ''feature'' oidB None 2 ''0xalice''
              \<in> set (fst (git_receive_pack ?rm demoMem ?req1))"
    by (simp only: push_create_and_tag) simp
  from t1 [THEN conjunct2, THEN conjunct2, THEN conjunct1, rule_format, OF ev]
  obtain user repo lines st1 where
    r: "getRepositoryByName ?rm demoMem (param_owner ?req1) (param_name ?req1) = Some repo"
    and f: "fst (git_receive_pack ?rm demoMem ?req1)
              = [GetRepositoryByName (param_owner ?req1) (param_name ?req1),
                 HasWriteAccess (repoId repo) user,
                 ExtractPackfile (repoId repo) (snd (splitBody (arrayBuffer ?req1)))]
                @ fst (applyUpdates ?rm user (repoId repo) (param_name ?req1)
                         (parseUpdates lines []) st1)"
    and m: "PushBranch ''0x01'' ''feature'' oidB None 2 ''0xalice''
              \<in> set (fst (applyUpdates ?rm user (repoId repo) (param_name ?req1)
                             (parseUpdates lines []) st1))"
    by blast
  from f have "user = ''0xalice''"
    by (simp only: push_create_and_tag) simp
  moreover from r have "repoId repo = ''0x01''"
    by (auto simp: memManager_def demoRequest_def privateRepo_def)
  ultimately have "fst (git_receive_pack ?rm demoMem ?req1)
           = [GetRepositoryByName ''0xowner'' ''demo'', HasWriteAccess ''0x01'' ''0xalice'',
              ExtractPackfile ''0x01'' ''PACK........'']
             @ fst (applyUpdates ?rm user (repoId repo) (param_name ?req1)
                      (parseUpdates lines []) st1)"
    using f sp1 by (simp add: demoRequest_def)
  with m have 4: "\<exists>t2.
         fst (git_receive_pack ?rm demoMem ?req1)
           = [GetRepositoryByName ''0xowner'' ''demo'', HasWriteAccess ''0x01'' ''0xalice'',
              ExtractPackfile ''0x01'' ''PACK........''] @ t2
         \<and> PushBranch ''0x01'' ''feature'' oidB None 2 ''0xalice'' \<in> set t2"
    by blast
  \<comment> \<open>A corrupt pack: no update.\<close>
  have sp2: "snd (splitBody (arrayBuffer ?req2)) = ''PACK..''"
    by (simp add: demoRequest_def splitBody_def indexOf_def subarray_def subarrayFrom_def
          pushCorruptPack_def pkt_eval oidB_def ZERO_OID_def NUL_def)
  have c: "getRepositoryByName ?rm demoMem (param_owner ?req2) (param_name ?req2)
             = Some privateRepo
           \<and> extractPackfile ?rm demoMem (repoId privateRepo) (snd (splitBody (arrayBuffer ?req2)))
             = (demoMem, Some CorruptPackError)"
    unfolding sp2 by (simp add: memManager_def demoRequest_def startsWith_def)
  have x: "ExtractPackfile ''0x01'' ''PACK..'' \<in> set (fst (git_receive_pack ?rm demoMem ?req2))"
    by (simp only: push_corrupt_pack) simp
  from t2 [THEN conjunct2, THEN conjunct2, THEN conjunct2, rule_format, OF c]
  have 5: "PushBranch ''0x01'' ''feature'' oidB None 2 ''0xalice''
             \<notin> set (fst (git_receive_pack ?rm demoMem ?req2))"
    and "\<exists>user. git_receive_pack ?rm demoMem ?req2
                  = ([GetRepositoryByName (param_owner ?req2) (param_name ?req2),
                      HasWriteAccess (repoId privateRepo) user,
                      ExtractPackfile (repoId privateRepo) (snd (splitBody (arrayBuffer ?req2)))],
                     demoMem, Inl CorruptPackError)"
    using x by blast+
  then have 6: "git_receive_pack ?rm demoMem ?req2
       = ([GetRepositoryByName ''0xowner'' ''demo'', HasWriteAccess ''0x01'' ''0xalice'',
           ExtractPackfile ''0x01'' ''PACK..''],
          demoMem, Inl CorruptPackError)"
    by (simp only: push_corrupt_pack)
  from 1 2 3 4 5 6 show ?thesis by blast
qed

text \<open>
  Claim C9: when the body of a receive-pack request holds no occurrence of the four bytes
  \<^verbatim>\<open>PACK\<close>, \<^verbatim>\<open>indexOf\<close> returns \<open>-1\<close> and the body is split there: the command data are the
  body without its final byte, and the pack data are that final byte alone. On an
  authorised request the handler does what these two parts decide: a failed parse of the
  body without its final byte ends the request before any extraction; otherwise
  \<open>extractPackfile\<close> receives the final byte alone, and when it accepts it the updates
  applied are those of the commands parsed from the body without its final byte. Every
  call of \<open>extractPackfile\<close> in the trace of such a request receives exactly that byte,
  after the commands were parsed from the body without it. A delete-only push that ends
  with the flush packet therefore fails in the parse, although its whole body parses.
\<close>

theorem receive_pack_split_without_pack:
  assumes "\<forall>i. take 4 (drop i (arrayBuffer req)) \<noteq> ''PACK''"
  shows "splitBody (arrayBuffer req)
           = (butlast (arrayBuffer req), drop (length (arrayBuffer req) - 1) (arrayBuffer req))
         \<and> (arrayBuffer req \<noteq> [] \<longrightarrow> snd (splitBody (arrayBuffer req)) = [last (arrayBuffer req)])
         \<and> (\<forall>user repo.
               header_x_jeju_address req = Some user \<and> user \<noteq> []
               \<and> getRepositoryByName rm st (param_owner req) (param_name req) = Some repo
               \<and> hasWriteAccess rm st (repoId repo) user
             \<longrightarrow> git_receive_pack rm st req =
                   (case parsePktLines (butlast (arrayBuffer req)) of
                      Inl e \<Rightarrow>
                        ([GetRepositoryByName (param_owner req) (param_name req),
                          HasWriteAccess (repoId repo) user], st, Inl e)
                    | Inr lines \<Rightarrow>
                        (case extractPackfile rm st (repoId repo)
                                (drop (length (arrayBuffer req) - 1) (arrayBuffer req)) of
                           (st1, Some e) \<Rightarrow>
                             ([GetRepositoryByName (param_owner req) (param_name req),
                               HasWriteAccess (repoId repo) user,
                               ExtractPackfile (repoId repo)
                                 (drop (length (arrayBuffer req) - 1) (arrayBuffer req))],
                              st1, Inl e)
                         | (st1, None) \<Rightarrow>
                             (case applyUpdates rm user (repoId repo) (param_name req)
                                     (parseUpdates lines []) st1 of
                                (t2, st2, r) \<Rightarrow>
                                  ([GetRepositoryByName (param_owner req) (param_name req),
                                    HasWriteAccess (repoId repo) user,
                                    ExtractPackfile (repoId repo)
                                      (drop (length (arrayBuffer req) - 1) (arrayBuffer req))]
                                   @ t2,
                                   st2,
                                   map_sum id
                                     (\<lambda>results.
                                        new_Response
                                          (createPktLines rm
                                             (''unpack ok'' # map statusLine results))
                                          [(''Content-Type'',
                                            ''application/x-git-receive-pack-result''),
                                           (''Cache-Control'', ''no-cache'')])
                                     r)))))
         \<and> (\<forall>rid d.
               ExtractPackfile rid d \<in> set (fst (git_receive_pack rm st req))
             \<longrightarrow> d = drop (length (arrayBuffer req) - 1) (arrayBuffer req)
                 \<and> (\<exists>lines. parsePktLines (butlast (arrayBuffer req)) = Inr lines))"
proof -
  from assms have s: "splitBody (arrayBuffer req)
           = (butlast (arrayBuffer req), drop (length (arrayBuffer req) - 1) (arrayBuffer req))"
    by (rule splitBody_not_found)
  have l: "arrayBuffer req \<noteq> [] \<longrightarrow> snd (splitBody (arrayBuffer req)) = [last (arrayBuffer req)]"
  proof
    assume "arrayBuffer req \<noteq> []"
    then have "arrayBuffer req = butlast (arrayBuffer req) @ [last (arrayBuffer req)]"
      by simp
    then have "drop (length (arrayBuffer req) - 1) (arrayBuffer req) = [last (arrayBuffer req)]"
      by (metis append_eq_conv_conj length_butlast)
    with s show "snd (splitBody (arrayBuffer req)) = [last (arrayBuffer req)]" by simp
  qed
  from s have f: "fst (splitBody (arrayBuffer req)) = butlast (arrayBuffer req)"
    "snd (splitBody (arrayBuffer req)) = drop (length (arrayBuffer req) - 1) (arrayBuffer req)"
    by simp_all
  have g: "git_receive_pack rm st req =
                   (case parsePktLines (butlast (arrayBuffer req)) of
                      Inl e \<Rightarrow>
                        ([GetRepositoryByName (param_owner req) (param_name req),
                          HasWriteAccess (repoId repo) user], st, Inl e)
                    | Inr lines \<Rightarrow>
                        (case extractPackfile rm st (repoId repo)
                                (drop (length (arrayBuffer req) - 1) (arrayBuffer req)) of
                           (st1, Some e) \<Rightarrow>
                             ([GetRepositoryByName (param_owner req) (param_name req),
                               HasWriteAccess (repoId repo) user,
                               ExtractPackfile (repoId repo)
                                 (drop (length (arrayBuffer req) - 1) (arrayBuffer req))],
                              st1, Inl e)
                         | (st1, None) \<Rightarrow>
                             (case applyUpdates rm user (repoId repo) (param_name req)
                                     (parseUpdates lines []) st1 of
                                (t2, st2, r) \<Rightarrow>
                                  ([GetRepositoryByName (param_owner req) (param_name req),
                                    HasWriteAccess (repoId repo) user,
                                    ExtractPackfile (repoId repo)
                                      (drop (length (arrayBuffer req) - 1) (arrayBuffer req))]
                                   @ t2,
                                   st2,
                                   map_sum id
                                     (\<lambda>results.
                                        new_Response
                                          (createPktLines rm
                                             (''unpack ok'' # map statusLine results))
                                          [(''Content-Type'',
                                            ''application/x-git-receive-pack-result''),
                                           (''Cache-Control'', ''no-cache'')])
                                     r))))"
    if "header_x_jeju_address req = Some user \<and> user \<noteq> []
               \<and> getRepositoryByName rm st (param_owner req) (param_name req) = Some repo
               \<and> hasWriteAccess rm st (repoId repo) user" for user repo
    using git_receive_pack_served [of req user rm st repo, unfolded f] that by simp
  have "d = drop (length (arrayBuffer req) - 1) (arrayBuffer req)
          \<and> (\<exists>lines. parsePktLines (butlast (arrayBuffer req)) = Inr lines)"
    if "ExtractPackfile rid d \<in> set (fst (git_receive_pack rm st req))" for rid d
    using receive_pack_extract_event [OF that] s by simp
  with s l g show ?thesis by blast
qed

theorem receive_pack_split_without_pack_witness:
  "splitBody pushDeleteOnly = (butlast pushDeleteOnly, ''0'')
   \<and> snd (splitBody pushDeleteOnly) = [last pushDeleteOnly]
   \<and> parsePktLines pushDeleteOnly
       = Inr [oidA @ '' '' @ ZERO_OID @ '' refs/heads/dev'' @ [NUL] @ ''report-status'']
   \<and> git_receive_pack (memManager privateRepo [''0xalice'']) demoMem
         (demoRequest None (Some ''0xalice'') pushDeleteOnly)
       = ([GetRepositoryByName ''0xowner'' ''demo'', HasWriteAccess ''0x01'' ''0xalice''],
          demoMem, Inl MalformedRequestError)
   \<and> fst (git_receive_pack acceptAllManager demoMem
            (demoRequest None (Some ''0xalice'') (pushDeleteOnly @ [LF])))
       = [GetRepositoryByName ''0xowner'' ''demo'', HasWriteAccess ''0x01'' ''0xalice'',
          ExtractPackfile ''0x01'' [LF],
          PushBranch ''0x01'' ''dev'' ZERO_OID (Some oidA) 0 ''0xalice'',
          TrackGitContribution ''0xalice'' ''0x01'' ''demo'' ''dev'' 0 ''Push'']"
proof -
  let ?rm = "memManager privateRepo [''0xalice'']"
  let ?req1 = "demoRequest None (Some ''0xalice'') pushDeleteOnly"
  let ?req2 = "demoRequest None (Some ''0xalice'') (pushDeleteOnly @ [LF])"
  have b1: "arrayBuffer ?req1 = pushDeleteOnly" and b2: "arrayBuffer ?req2 = pushDeleteOnly @ [LF]"
    by (simp_all add: demoRequest_def)
  have noP: "CHR ''P'' \<notin> set pushDeleteOnly"
    by (simp add: pushDeleteOnly_def pkt_eval oidA_def ZERO_OID_def NUL_def)
  then have h1: "\<forall>i. take 4 (drop i (arrayBuffer ?req1)) \<noteq> ''PACK''"
    unfolding b1 by (rule no_PACK_without_P)
  from noP have "CHR ''P'' \<notin> set (pushDeleteOnly @ [LF])" by (simp add: LF_def)
  then have h2: "\<forall>i. take 4 (drop i (arrayBuffer ?req2)) \<noteq> ''PACK''"
    unfolding b2 by (rule no_PACK_without_P)
  note t1 = receive_pack_split_without_pack [OF h1, of ?rm demoMem]
  note t2 = receive_pack_split_without_pack [OF h2, of acceptAllManager demoMem]
  have ne: "pushDeleteOnly \<noteq> []" and lst: "last pushDeleteOnly = CHR ''0''"
    by (simp_all add: pushDeleteOnly_def pkt_eval)
  have dr: "drop (length pushDeleteOnly - 1) pushDeleteOnly = ''0''"
    by (simp add: pushDeleteOnly_def pkt_eval oidA_def ZERO_OID_def NUL_def)
  from t1 ne lst dr
  have 1: "splitBody pushDeleteOnly = (butlast pushDeleteOnly, ''0'')"
    and 2: "snd (splitBody pushDeleteOnly) = [last pushDeleteOnly]"
    unfolding b1 by simp_all
  \<comment> \<open>The delete-only push: its commands parse, but not without the last byte.\<close>
  have 3: "parsePktLines pushDeleteOnly
       = Inr [oidA @ '' '' @ ZERO_OID @ '' refs/heads/dev'' @ [NUL] @ ''report-status'']"
    by (simp add: pushDeleteOnly_def demo_eval ZERO_OID_def)
  have p1: "parsePktLines (butlast pushDeleteOnly) = Inl MalformedRequestError"
    by (simp add: pushDeleteOnly_def demo_eval ZERO_OID_def)
  have a1: "header_x_jeju_address ?req1 = Some ''0xalice'' \<and> ''0xalice'' \<noteq> []
          \<and> getRepositoryByName ?rm demoMem (param_owner ?req1) (param_name ?req1)
              = Some privateRepo
          \<and> hasWriteAccess ?rm demoMem (repoId privateRepo) ''0xalice''"
    by (simp add: memManager_def demoRequest_def)
  from t1 [THEN conjunct2, THEN conjunct2, THEN conjunct1, rule_format, OF a1]
  have 4: "git_receive_pack ?rm demoMem ?req1
       = ([GetRepositoryByName ''0xowner'' ''demo'', HasWriteAccess ''0x01'' ''0xalice''],
          demoMem, Inl MalformedRequestError)"
    unfolding b1 p1 by (simp add: demoRequest_def privateRepo_def)
  \<comment> \<open>The same push with one more byte: the commands are those of the body without it.\<close>
  have a2: "header_x_jeju_address ?req2 = Some ''0xalice'' \<and> ''0xalice'' \<noteq> []
          \<and> getRepositoryByName acceptAllManager demoMem (param_owner ?req2) (param_name ?req2)
              = Some privateRepo
          \<and> hasWriteAccess acceptAllManager demoMem (repoId privateRepo) ''0xalice''"
    by (simp add: acceptAllManager_def memManager_def demoRequest_def)
  have bl: "butlast (pushDeleteOnly @ [LF]) = pushDeleteOnly"
    and dl: "drop (length (pushDeleteOnly @ [LF]) - 1) (pushDeleteOnly @ [LF]) = [LF]"
    by simp_all
  from t2 [THEN conjunct2, THEN conjunct2, THEN conjunct1, rule_format, OF a2]
  have 5: "fst (git_receive_pack acceptAllManager demoMem ?req2)
       = [GetRepositoryByName ''0xowner'' ''demo'', HasWriteAccess ''0x01'' ''0xalice'',
          ExtractPackfile ''0x01'' [LF],
          PushBranch ''0x01'' ''dev'' ZERO_OID (Some oidA) 0 ''0xalice'',
          TrackGitContribution ''0xalice'' ''0x01'' ''demo'' ''dev'' 0 ''Push'']"
    unfolding b2 bl dl 3
    by (simp add: acceptAllManager_def matchUpdate_def lowerHex_def pushMessage_def
          ZERO_OID_def demo_eval)
  from 1 2 3 4 5 show ?thesis by blast
qed



section \<open>Push: a failed compare-and-swap\<close>

text \<open>
  Claim C1: a compare-and-swap mismatch on one ref of a push with several commands is to be
  reported as an \<^verbatim>\<open>ng\<close> line for that ref while the other refs are still processed. The
  handler calls \<open>pushBranch\<close> outside any \<^verbatim>\<open>try\<close> block. On a push that updates \<open>main\<close>
  with a stale old oid and creates \<open>feature\<close>, the exception of the first \<open>pushBranch\<close>
  ends the whole request: there is no report at all, and \<open>pushBranch\<close> is never called for
  \<open>feature\<close>, whose creation would have succeeded.
\<close>

theorem receive_pack_cas_mismatch_fails_request:
  "git_receive_pack (memManager privateRepo [''0xalice'']) demoMem
     (demoRequest None (Some ''0xalice'') pushStaleAndCreate)
   = ([GetRepositoryByName ''0xowner'' ''demo'', HasWriteAccess ''0x01'' ''0xalice'',
       ExtractPackfile ''0x01'' ''PACK........'',
       PushBranch ''0x01'' ''main'' oidC (Some oidA) 0 ''0xalice''],
      demoMem, Inl NonFastForwardOrRaceError)"
  by (simp add: push_eval demo_eval)

end
